theory Spec2Isabelle
  imports Complex_Main "HOL-Library.Sublist" "HOL-Library.Char_ord" "HOL-Library.List_Lexorder"
begin

section \<open>Coordinate resolver (utils/coords)\<close>

text \<open>
  Isabelle record fields live in one name space, so every field carries a short prefix
  naming its record: \<open>pc_x\<close> is the field \<open>x\<close> of \<open>PixelCoordinates\<close>,
  \<open>dim_width\<close> the field \<open>width\<close> of \<open>ImageDimensions\<close>.

  Pixel coordinates are integers (the request schema demands \<open>z.number().int()\<close>, the
  base64 endpoint rounds). Unit-interval coordinates are JavaScript doubles; they are
  idealised as exact real numbers, and \<open>Math.round\<close> is rounding half up.
\<close>

record ImageDimensions =
  dim_width :: int
  dim_height :: int

record PixelCoordinates =
  pc_x :: int
  pc_y :: int
  pc_width :: int
  pc_height :: int

record NormalizedCoordinates =
  x_norm :: real
  y_norm :: real
  w_norm :: real
  h_norm :: real

text \<open>
  \<open>Coordinates\<close> is the union type of the source. \<open>isPixelCoordinates\<close> and
  \<open>isNormalizedCoordinates\<close> test which fields an object has; an object with neither set
  of fields is \<open>OtherShape\<close>, on which \<open>toPixelCoordinates\<close> throws.
\<close>

datatype Coordinates =
  Pixel PixelCoordinates
  | Normalized NormalizedCoordinates
  | OtherShape

text \<open>
  A thrown JavaScript value. The constructors are the error classes of the repository;
  \<open>PlainError name message\<close> is any other \<open>Error\<close> object (the storage client's
  errors are told apart by their \<open>name\<close>), \<open>NonErrorValue s\<close> a thrown value that is not
  an \<open>Error\<close>, with \<open>s\<close> what \<open>String\<close> makes of it. The \<open>details\<close> and \<open>cause\<close> fields are
  left out.
\<close>

record RedactionError =
  re_name :: string
  re_message :: string
  re_code :: string
  re_statusCode :: nat

datatype Thrown =
  PlainError string string
  | S3ServiceError string string nat
  | RedactionServiceError string string nat
  | ImagePipelineError string
  | RedactionErr RedactionError
  | NonErrorValue string

definition Math_round :: "real \<Rightarrow> int" where
  "Math_round v = \<lfloor>v + 1 / 2\<rfloor>"

definition normalizedToPixel :: "NormalizedCoordinates \<Rightarrow> ImageDimensions \<Rightarrow> PixelCoordinates" where
  "normalizedToPixel coords dimensions =
     \<lparr> pc_x = Math_round (x_norm coords * of_int (dim_width dimensions)),
       pc_y = Math_round (y_norm coords * of_int (dim_height dimensions)),
       pc_width = Math_round (w_norm coords * of_int (dim_width dimensions)),
       pc_height = Math_round (h_norm coords * of_int (dim_height dimensions)) \<rparr>"

fun toPixelCoordinates :: "Coordinates \<Rightarrow> ImageDimensions \<Rightarrow> Thrown + PixelCoordinates" where
  "toPixelCoordinates (Pixel coords) dimensions = Inr coords"
| "toPixelCoordinates (Normalized coords) dimensions = Inr (normalizedToPixel coords dimensions)"
| "toPixelCoordinates OtherShape dimensions = Inl (PlainError ''Error'' ''Invalid coordinate type'')"

definition clampToImageBounds :: "PixelCoordinates \<Rightarrow> ImageDimensions \<Rightarrow> PixelCoordinates" where
  "clampToImageBounds coords dimensions =
     (let x = max 0 (min (pc_x coords) (dim_width dimensions));
          y = max 0 (min (pc_y coords) (dim_height dimensions));
          maxWidth = dim_width dimensions - x;
          maxHeight = dim_height dimensions - y;
          width = max 1 (min (pc_width coords) maxWidth);
          height = max 1 (min (pc_height coords) maxHeight)
      in \<lparr> pc_x = x, pc_y = y, pc_width = width, pc_height = height \<rparr>)"

definition processCoordinates :: "Coordinates \<Rightarrow> ImageDimensions \<Rightarrow> Thrown + PixelCoordinates" where
  "processCoordinates coords dimensions =
     (case toPixelCoordinates coords dimensions of
        Inl e \<Rightarrow> Inl e
      | Inr pixelCoords \<Rightarrow> Inr (clampToImageBounds pixelCoords dimensions))"

section \<open>Region pre-clamp of the base64 endpoint (modules/base64/controller)\<close>

text \<open>
  The base64 endpoint takes regions as plain \<open>{x, y, width, height}\<close> numbers and guesses
  the representation: a region is taken as unit-interval when all four numbers are at
  most 1. Before the pipeline runs, the handler clamps every region in place; a region
  taken as unit-interval that has no area left is answered with HTTP 400
  \<open>INVALID_REGION\<close>. \<open>clampRegion i coords imgWidth imgHeight\<close> is the body of that
  loop for the region at index \<open>i\<close>: \<open>Inl\<close> is the reply that ends the request,
  \<open>Inr\<close> the coordinates as the loop leaves them.
\<close>

record SimpleCoords =
  sc_x :: real
  sc_y :: real
  sc_width :: real
  sc_height :: real

record ErrorReply =
  er_status :: nat
  er_code :: string
  er_message :: string

text \<open>The decimal rendering of a non-negative integer, as a template literal prints it.\<close>

fun showNat :: "nat \<Rightarrow> string" where
  "showNat n =
     (if n < 10 then [''0123456789'' ! n]
      else showNat (n div 10) @ [''0123456789'' ! (n mod 10)])"

declare showNat.simps [simp del]

definition isNormalized :: "SimpleCoords \<Rightarrow> bool" where
  "isNormalized coords \<longleftrightarrow>
     sc_x coords \<le> 1 \<and> sc_y coords \<le> 1 \<and> sc_width coords \<le> 1 \<and> sc_height coords \<le> 1"

definition clampRegion :: "nat \<Rightarrow> SimpleCoords \<Rightarrow> int \<Rightarrow> int \<Rightarrow> ErrorReply + SimpleCoords" where
  "clampRegion i coords imgWidth imgHeight =
     (if isNormalized coords then
        (let x = max 0 (min 1 (sc_x coords));
             y = max 0 (min 1 (sc_y coords));
             width = max 0 (min (1 - x) (sc_width coords));
             height = max 0 (min (1 - y) (sc_height coords))
         in if width \<le> 0 \<or> height \<le> 0
            then Inl \<lparr> er_status = 400, er_code = ''INVALID_REGION'',
                       er_message = ''Region '' @ showNat (i + 1)
                         @ '': After adjusting to image bounds, region has no area'' \<rparr>
            else Inr \<lparr> sc_x = x, sc_y = y, sc_width = width, sc_height = height \<rparr>)
      else
        (let x0 = Math_round (sc_x coords);
             y0 = Math_round (sc_y coords);
             width0 = Math_round (sc_width coords);
             height0 = Math_round (sc_height coords);
             x = max 0 (min (imgWidth - 1) x0);
             y = max 0 (min (imgHeight - 1) y0);
             width = max 1 (min (imgWidth - x) width0);
             height = max 1 (min (imgHeight - y) height0)
         in Inr \<lparr> sc_x = of_int x, sc_y = of_int y,
                  sc_width = of_int width, sc_height = of_int height \<rparr>))"

text \<open>
  \<open>convertToInternalRegion\<close>, its coordinate part: the same guess, made again on the
  clamped numbers, chooses the representation handed to the pipeline.
\<close>

definition convertToInternalCoordinates :: "SimpleCoords \<Rightarrow> Coordinates" where
  "convertToInternalCoordinates coords =
     (if isNormalized coords
      then Normalized \<lparr> x_norm = sc_x coords, y_norm = sc_y coords,
                        w_norm = sc_width coords, h_norm = sc_height coords \<rparr>
      else Pixel \<lparr> pc_x = Math_round (sc_x coords), pc_y = Math_round (sc_y coords),
                   pc_width = Math_round (sc_width coords),
                   pc_height = Math_round (sc_height coords) \<rparr>)"


section \<open>Requests and jobs (modules/redaction/dtos, schemas)\<close>

datatype Size = S | M | L

datatype RedactionOperation =
  Blur Size
  | Pixelate Size
  | Fill string

record Region =
  rg_coordinates :: Coordinates
  rg_operation :: RedactionOperation

datatype ImageFormat = Webp | Jpeg

record S3Object =
  s3_bucket :: string
  s3_key :: string

record S3Output =
  out_bucket :: string
  out_key :: string
  out_format :: ImageFormat
  out_quality :: "int option"

record S3RedactionRequest =
  rq_input :: S3Object
  rq_output :: S3Output
  rq_regions :: "Region list"
  rq_idempotency_key :: "string option"

record S3RedactionResponse =
  rs_ok :: bool
  rs_output :: "S3Output option"
  rs_processing_time_ms :: real
  rs_etag :: "string option"

datatype Status = Pending | Processing | Completed | Failed

text \<open>A \<open>Date\<close> is its \<open>getTime()\<close>: milliseconds since the epoch.\<close>

type_synonym Date = int

record JobItem =
  item_id :: string
  item_request :: S3RedactionRequest
  item_status :: Status
  item_result :: "S3RedactionResponse option"
  item_error :: "string option"
  item_startedAt :: "Date option"
  item_completedAt :: "Date option"

text \<open>\<open>Partial<JobItem>\<close>: every field may be absent.\<close>

record JobItemUpdate =
  up_id :: "string option"
  up_request :: "S3RedactionRequest option"
  up_status :: "Status option"
  up_result :: "S3RedactionResponse option"
  up_error :: "string option"
  up_startedAt :: "Date option"
  up_completedAt :: "Date option"

record Progress =
  pg_total :: nat
  pg_completed :: nat
  pg_failed :: nat

record Job =
  job_id :: string
  job_status :: Status
  job_items :: "JobItem list"
  job_webhookUrl :: "string option"
  job_createdAt :: Date
  job_startedAt :: "Date option"
  job_completedAt :: "Date option"
  job_progress :: Progress

section \<open>The job store (modules/batch/jobStore)\<close>

text \<open>
  The store is a JavaScript \<open>Map\<close> from job ids to jobs. A \<open>Map\<close> keeps its entries in
  insertion order, which the eviction's sort sees, so it is an association list:
  \<open>Map.get\<close> is \<open>map_of\<close>, \<open>Map.set\<close> replaces the value of a key in place or appends
  a new entry, \<open>Map.delete\<close> removes the key's entry.

  Every method that reads the clock takes the time as its last argument (where the source
  reads the clock twice in a row, the model reads it once); the job id that
  \<open>generateRandomId\<close> draws is an argument of \<open>createJob\<close>.
\<close>

record JobStore =
  jobs :: "(string \<times> Job) list"

definition MAX_JOBS :: int where
  "MAX_JOBS = 1000"

definition JOB_TTL_MS :: int where
  "JOB_TTL_MS = 24 * 60 * 60 * 1000"

fun Map_set :: "'k \<Rightarrow> 'v \<Rightarrow> ('k \<times> 'v) list \<Rightarrow> ('k \<times> 'v) list" where
  "Map_set k v [] = [(k, v)]"
| "Map_set k v (p # ps) = (if fst p = k then (k, v) # ps else p # Map_set k v ps)"

definition Map_delete :: "'k \<Rightarrow> ('k \<times> 'v) list \<Rightarrow> ('k \<times> 'v) list" where
  "Map_delete k m = filter (\<lambda>p. fst p \<noteq> k) m"

text \<open>\<open>Array.prototype.findIndex\<close>; \<open>None\<close> is the source's \<open>-1\<close>.\<close>

fun findIndex :: "('a \<Rightarrow> bool) \<Rightarrow> 'a list \<Rightarrow> nat option" where
  "findIndex P [] = None"
| "findIndex P (x # xs) = (if P x then Some 0 else map_option Suc (findIndex P xs))"

definition getJob :: "JobStore \<Rightarrow> string \<Rightarrow> Job option" where
  "getJob store jobId = map_of (jobs store) jobId"

definition getJobCount :: "JobStore \<Rightarrow> nat" where
  "getJobCount store = length (jobs store)"

definition deleteJob :: "JobStore \<Rightarrow> string \<Rightarrow> bool \<times> JobStore" where
  "deleteJob store jobId =
     (jobId \<in> fst ` set (jobs store), store\<lparr> jobs := Map_delete jobId (jobs store) \<rparr>)"

text \<open>
  \<open>cleanupOldJobs\<close>. The first loop collects the ids of the jobs older than the TTL.
  When the store, less those, still holds more than \<open>MAX_JOBS\<close> jobs, the ids of the
  first \<open>excess\<close> entries of all entries sorted by creation time are collected as well
  (\<open>Array.prototype.sort\<close> is stable, as \<open>sort_key\<close> is). Then every collected id is
  deleted.
\<close>

definition cleanupOldJobs :: "JobStore \<Rightarrow> Date \<Rightarrow> JobStore" where
  "cleanupOldJobs store now =
     (let expired = map fst (filter (\<lambda>(jobId, job). now - job_createdAt job > JOB_TTL_MS) (jobs store));
          jobsToDelete =
            (if int (length (jobs store)) - int (length expired) > MAX_JOBS
             then (let sortedJobs = sort_key (\<lambda>(jobId, job). job_createdAt job) (jobs store);
                       excess = int (length (jobs store)) - int (length expired) - MAX_JOBS
                   in expired @ map fst (take (nat excess) sortedJobs))
             else expired)
      in store\<lparr> jobs := fold Map_delete jobsToDelete (jobs store) \<rparr>)"

definition createJob ::
  "JobStore \<Rightarrow> S3RedactionRequest list \<Rightarrow> string option \<Rightarrow> string \<Rightarrow> Date \<Rightarrow> Job \<times> JobStore" where
  "createJob store requests webhookUrl jobId now =
     (let job = \<lparr> job_id = jobId,
                   job_status = Pending,
                   job_items = map (\<lambda>(index, request).
                       \<lparr> item_id = jobId @ ''-'' @ showNat index,
                         item_request = request,
                         item_status = Pending,
                         item_result = None, item_error = None,
                         item_startedAt = None, item_completedAt = None \<rparr>)
                     (enumerate 0 requests),
                   job_webhookUrl = webhookUrl,
                   job_createdAt = now,
                   job_startedAt = None,
                   job_completedAt = None,
                   job_progress = \<lparr> pg_total = length requests, pg_completed = 0, pg_failed = 0 \<rparr> \<rparr>;
          store1 = cleanupOldJobs store now
      in (job, store1\<lparr> jobs := Map_set jobId job (jobs store1) \<rparr>))"

definition updateJobProgress :: "Job \<Rightarrow> Date \<Rightarrow> Job" where
  "updateJobProgress job now =
     (let completed = length (filter (\<lambda>item. item_status item = Completed) (job_items job));
          failed = length (filter (\<lambda>item. item_status item = Failed) (job_items job));
          job1 = job\<lparr> job_progress :=
                   (job_progress job)\<lparr> pg_completed := completed, pg_failed := failed \<rparr> \<rparr>
      in if completed + failed = pg_total (job_progress job1)
         then job1\<lparr> job_status := (if failed = 0 then Completed else Failed),
                    job_completedAt := Some now \<rparr>
         else if job_status job1 = Pending
         then job1\<lparr> job_status := Processing,
                    job_startedAt := (case job_startedAt job1 of None \<Rightarrow> Some now | Some t \<Rightarrow> Some t) \<rparr>
         else job1)"

text \<open>The object spread \<open>{...item, ...update}\<close>: a field of the update that is present wins.\<close>

definition spread :: "JobItem \<Rightarrow> JobItemUpdate \<Rightarrow> JobItem" where
  "spread item update =
     \<lparr> item_id = (case up_id update of None \<Rightarrow> item_id item | Some v \<Rightarrow> v),
       item_request = (case up_request update of None \<Rightarrow> item_request item | Some v \<Rightarrow> v),
       item_status = (case up_status update of None \<Rightarrow> item_status item | Some v \<Rightarrow> v),
       item_result = (case up_result update of None \<Rightarrow> item_result item | Some v \<Rightarrow> Some v),
       item_error = (case up_error update of None \<Rightarrow> item_error item | Some v \<Rightarrow> Some v),
       item_startedAt = (case up_startedAt update of None \<Rightarrow> item_startedAt item | Some v \<Rightarrow> Some v),
       item_completedAt = (case up_completedAt update of None \<Rightarrow> item_completedAt item | Some v \<Rightarrow> Some v) \<rparr>"

definition noUpdate :: JobItemUpdate where
  "noUpdate = \<lparr> up_id = None, up_request = None, up_status = None, up_result = None,
                up_error = None, up_startedAt = None, up_completedAt = None \<rparr>"

definition updateJobItem ::
  "JobStore \<Rightarrow> string \<Rightarrow> string \<Rightarrow> JobItemUpdate \<Rightarrow> Date \<Rightarrow> Thrown + JobStore" where
  "updateJobItem store jobId itemId update now =
     (case map_of (jobs store) jobId of
        None \<Rightarrow> Inl (PlainError ''Error'' (''Job '' @ jobId @ '' not found''))
      | Some job \<Rightarrow>
          (case findIndex (\<lambda>item. item_id item = itemId) (job_items job) of
             None \<Rightarrow> Inl (PlainError ''Error''
                       (''Job item '' @ itemId @ '' not found in job '' @ jobId))
           | Some itemIndex \<Rightarrow>
               (let job1 = job\<lparr> job_items :=
                             (job_items job)[itemIndex := spread (job_items job ! itemIndex) update] \<rparr>;
                    job2 = updateJobProgress job1 now
                in Inr (store\<lparr> jobs := Map_set jobId job2 (jobs store) \<rparr>))))"

definition startJobItem :: "JobStore \<Rightarrow> string \<Rightarrow> string \<Rightarrow> Date \<Rightarrow> Thrown + JobStore" where
  "startJobItem store jobId itemId now =
     updateJobItem store jobId itemId
       (noUpdate\<lparr> up_status := Some Processing, up_startedAt := Some now \<rparr>) now"

definition completeJobItem ::
  "JobStore \<Rightarrow> string \<Rightarrow> string \<Rightarrow> S3RedactionResponse \<Rightarrow> Date \<Rightarrow> Thrown + JobStore" where
  "completeJobItem store jobId itemId result now =
     updateJobItem store jobId itemId
       (noUpdate\<lparr> up_status := Some Completed, up_result := Some result,
                  up_completedAt := Some now \<rparr>) now"

definition failJobItem ::
  "JobStore \<Rightarrow> string \<Rightarrow> string \<Rightarrow> string \<Rightarrow> Date \<Rightarrow> Thrown + JobStore" where
  "failJobItem store jobId itemId error now =
     updateJobItem store jobId itemId
       (noUpdate\<lparr> up_status := Some Failed, up_error := Some error,
                  up_completedAt := Some now \<rparr>) now"

text \<open>
  The progress block of the status payload, as both the status endpoint and the webhook
  build it: \<open>pending\<close> is \<open>total - completed - failed\<close>.
\<close>

record StatusProgress =
  sp_total :: int
  sp_completed :: int
  sp_failed :: int
  sp_pending :: int

definition statusProgress :: "Job \<Rightarrow> StatusProgress" where
  "statusProgress job =
     \<lparr> sp_total = int (pg_total (job_progress job)),
       sp_completed = int (pg_completed (job_progress job)),
       sp_failed = int (pg_failed (job_progress job)),
       sp_pending = int (pg_total (job_progress job)) - int (pg_completed (job_progress job))
                    - int (pg_failed (job_progress job)) \<rparr>"

subsection \<open>Sequences of item transitions\<close>

text \<open>
  To speak of every state the item transitions produce: an \<open>ItemEvent\<close> is one call of
  \<open>startJobItem\<close>, \<open>completeJobItem\<close> or \<open>failJobItem\<close> on a job, paired with the time
  of the call. \<open>runEvents\<close> makes the calls in order; a call that throws (job or item
  not found) leaves the store as it was. \<open>isTerminal\<close> is a completed or failed item, and
  \<open>noRestart\<close> says that along the run no \<open>startJobItem\<close> is made on an item that is
  already terminal.
\<close>

datatype ItemEvent =
  StartJobItem string
  | CompleteJobItem string S3RedactionResponse
  | FailJobItem string string

fun applyEvent :: "JobStore \<Rightarrow> string \<Rightarrow> ItemEvent \<Rightarrow> Date \<Rightarrow> Thrown + JobStore" where
  "applyEvent store jobId (StartJobItem itemId) now = startJobItem store jobId itemId now"
| "applyEvent store jobId (CompleteJobItem itemId result) now = completeJobItem store jobId itemId result now"
| "applyEvent store jobId (FailJobItem itemId error) now = failJobItem store jobId itemId error now"

fun runEvents :: "JobStore \<Rightarrow> string \<Rightarrow> (ItemEvent \<times> Date) list \<Rightarrow> JobStore" where
  "runEvents store jobId [] = store"
| "runEvents store jobId ((ev, now) # evs) =
     (case applyEvent store jobId ev now of
        Inl e \<Rightarrow> runEvents store jobId evs
      | Inr store' \<Rightarrow> runEvents store' jobId evs)"

definition isTerminal :: "JobItem \<Rightarrow> bool" where
  "isTerminal item \<longleftrightarrow> item_status item = Completed \<or> item_status item = Failed"

fun restarts :: "JobStore \<Rightarrow> string \<Rightarrow> ItemEvent \<Rightarrow> bool" where
  "restarts store jobId (StartJobItem itemId) =
     (case getJob store jobId of
        None \<Rightarrow> False
      | Some job \<Rightarrow>
          (case findIndex (\<lambda>item. item_id item = itemId) (job_items job) of
             None \<Rightarrow> False
           | Some itemIndex \<Rightarrow> isTerminal (job_items job ! itemIndex)))"
| "restarts store jobId (CompleteJobItem itemId result) = False"
| "restarts store jobId (FailJobItem itemId error) = False"

fun noRestart :: "JobStore \<Rightarrow> string \<Rightarrow> (ItemEvent \<times> Date) list \<Rightarrow> bool" where
  "noRestart store jobId [] = True"
| "noRestart store jobId ((ev, now) # evs) =
     (\<not> restarts store jobId ev \<and>
      (case applyEvent store jobId ev now of
         Inl e \<Rightarrow> noRestart store jobId evs
       | Inr store' \<Rightarrow> noRestart store' jobId evs))"

text \<open>
  The invariant the item transitions keep: the progress counters are the item counts,
  a job whose status is terminal has only terminal items, and a job with only terminal
  items has the status its failure count decides.
\<close>

definition jobInv :: "Job \<Rightarrow> bool" where
  "jobInv job \<longleftrightarrow>
     pg_total (job_progress job) = length (job_items job)
     \<and> pg_completed (job_progress job)
         = length (filter (\<lambda>item. item_status item = Completed) (job_items job))
     \<and> pg_failed (job_progress job)
         = length (filter (\<lambda>item. item_status item = Failed) (job_items job))
     \<and> (job_status job = Completed \<or> job_status job = Failed
          \<longrightarrow> list_all isTerminal (job_items job))
     \<and> (list_all isTerminal (job_items job) \<longrightarrow>
          job_status job = (if pg_failed (job_progress job) = 0 then Completed else Failed))"

subsection \<open>Example data\<close>

text \<open>Concrete requests, responses and stores, used where a property is evaluated.\<close>

definition exampleRequest :: "string \<Rightarrow> S3RedactionRequest" where
  "exampleRequest k =
     \<lparr> rq_input = \<lparr> s3_bucket = ''in'', s3_key = k \<rparr>,
       rq_output = \<lparr> out_bucket = ''out'', out_key = k, out_format = Webp, out_quality = None \<rparr>,
       rq_regions = [\<lparr> rg_coordinates = Pixel \<lparr> pc_x = 0, pc_y = 0, pc_width = 10, pc_height = 10 \<rparr>,
                      rg_operation = Fill ''#112233'' \<rparr>],
       rq_idempotency_key = None \<rparr>"

definition exampleResponse :: "string \<Rightarrow> S3RedactionResponse" where
  "exampleResponse k =
     \<lparr> rs_ok = True,
       rs_output = Some \<lparr> out_bucket = ''out'', out_key = k, out_format = Webp, out_quality = None \<rparr>,
       rs_processing_time_ms = 12, rs_etag = Some ''etag'' \<rparr>"

definition emptyStore :: JobStore where
  "emptyStore = \<lparr> jobs = [] \<rparr>"

text \<open>
  A job of three items in a fresh store, and the calls a batch makes on it when its
  second item fails.
\<close>

definition threeItemStore :: JobStore where
  "threeItemStore =
     snd (createJob emptyStore [exampleRequest ''a'', exampleRequest ''b'', exampleRequest ''c'']
            None ''J'' 0)"

definition secondItemFails :: "(ItemEvent \<times> Date) list" where
  "secondItemFails =
     [(StartJobItem ''J-0'', 1), (CompleteJobItem ''J-0'' (exampleResponse ''a''), 2),
      (StartJobItem ''J-1'', 3), (FailJobItem ''J-1'' ''Object not found: s3://in/b'', 4),
      (StartJobItem ''J-2'', 5), (CompleteJobItem ''J-2'' (exampleResponse ''c''), 6)]"

text \<open>A job of one item, completed and then started again.\<close>

definition oneItemStore :: JobStore where
  "oneItemStore = snd (createJob emptyStore [exampleRequest ''a''] None ''J'' 0)"

definition completedThenRestarted :: "(ItemEvent \<times> Date) list" where
  "completedThenRestarted =
     [(CompleteJobItem ''J-0'' (exampleResponse ''a''), 1), (StartJobItem ''J-0'', 2)]"

text \<open>
  A store at capacity: 1000 jobs, all created at time 0, with the ids \<open>job0\<close> to
  \<open>job999\<close>.
\<close>

definition freshJob :: "nat \<Rightarrow> string \<times> Job" where
  "freshJob i =
     (''job'' @ showNat i,
      \<lparr> job_id = ''job'' @ showNat i, job_status = Pending, job_items = [],
        job_webhookUrl = None, job_createdAt = 0, job_startedAt = None,
        job_completedAt = None,
        job_progress = \<lparr> pg_total = 0, pg_completed = 0, pg_failed = 0 \<rparr> \<rparr>)"

definition fullStore :: JobStore where
  "fullStore = \<lparr> jobs = map freshJob [0..<1000] \<rparr>"

section \<open>Webhook delivery (modules/batch/controller, sendWebhook)\<close>

text \<open>
  The status payload (modules/batch/dtos). Timestamps stay numbers: \<open>toISOString\<close> is
  not modelled.
\<close>

record JobItemStatus =
  is_index :: nat
  is_status :: Status
  is_input :: S3Object
  is_output :: "S3Output option"
  is_processing_time_ms :: "real option"
  is_error :: "string option"
  is_started_at :: "Date option"
  is_completed_at :: "Date option"

record JobStatus =
  js_job_id :: string
  js_status :: Status
  js_created_at :: Date
  js_started_at :: "Date option"
  js_completed_at :: "Date option"
  js_progress :: StatusProgress
  js_items :: "JobItemStatus list"
  js_webhook_url :: "string option"
  js_webhook_delivered :: "bool option"
  js_webhook_attempts :: "nat option"

definition itemStatuses :: "Job \<Rightarrow> JobItemStatus list" where
  "itemStatuses job =
     map (\<lambda>(index, item).
           \<lparr> is_index = index,
             is_status = item_status item,
             is_input = rq_input (item_request item),
             is_output = (case item_result item of None \<Rightarrow> None | Some r \<Rightarrow> rs_output r),
             is_processing_time_ms = map_option rs_processing_time_ms (item_result item),
             is_error = item_error item,
             is_started_at = item_startedAt item,
             is_completed_at = item_completedAt item \<rparr>)
         (enumerate 0 (job_items job))"

definition webhookPayload :: "Job \<Rightarrow> string \<Rightarrow> nat \<Rightarrow> JobStatus" where
  "webhookPayload job webhookUrl attempt =
     \<lparr> js_job_id = job_id job,
       js_status = job_status job,
       js_created_at = job_createdAt job,
       js_started_at = job_startedAt job,
       js_completed_at = job_completedAt job,
       js_progress = statusProgress job,
       js_items = itemStatuses job,
       js_webhook_url = Some webhookUrl,
       js_webhook_delivered = Some False,
       js_webhook_attempts = Some (attempt + 1) \<rparr>"

text \<open>
  What \<open>fetch\<close> does with a request: it resolves to a response, of which the status and
  the status text are read (\<open>response.ok\<close> is a status from 200 to 299), or it rejects
  with a thrown value (a transport failure).
\<close>

datatype FetchResult =
  Response nat string
  | Rejected Thrown

definition response_ok :: "nat \<Rightarrow> bool" where
  "response_ok status \<longleftrightarrow> 200 \<le> status \<and> status \<le> 299"

text \<open>
  The world \<open>sendWebhook\<close> runs in, by attempt number: the job store as the attempt
  finds it (the store may change while a retry waits) and the answer of \<open>fetch\<close>.
\<close>

record WebhookEnv =
  wh_store :: "nat \<Rightarrow> JobStore"
  wh_fetch :: "nat \<Rightarrow> string \<Rightarrow> JobStatus \<Rightarrow> FetchResult"

text \<open>What \<open>sendWebhook\<close> does to the outside: HTTP posts and \<open>setTimeout\<close> waits.\<close>

datatype WebhookEffect =
  Post string JobStatus
  | Sleep nat

definition maxAttempts :: nat where
  "maxAttempts = 3"

definition retryDelays :: "nat list" where
  "retryDelays = [1000, 5000, 10000]"

text \<open>The \<open>try\<close> block of \<open>sendWebhook\<close>: \<open>Inl\<close> is what it throws.\<close>

definition deliver :: "WebhookEnv \<Rightarrow> Job \<Rightarrow> string \<Rightarrow> nat \<Rightarrow> Thrown + unit" where
  "deliver env job webhookUrl attempt =
     (case wh_fetch env attempt webhookUrl (webhookPayload job webhookUrl attempt) of
        Rejected e \<Rightarrow> Inl e
      | Response status statusText \<Rightarrow>
          if \<not> response_ok status
          then Inl (PlainError ''Error''
                 (''Webhook returned '' @ showNat status @ '': '' @ statusText))
          else Inr ())"

text \<open>
  \<open>sendWebhook\<close>. The result is \<open>Inl\<close> when the call throws and \<open>Inr\<close> of the effects it
  had when it returns. The \<open>catch\<close> block awaits the retry, so a retry that threw would
  throw here too.
\<close>

function sendWebhook :: "WebhookEnv \<Rightarrow> string \<Rightarrow> string \<Rightarrow> nat \<Rightarrow> Thrown + WebhookEffect list" where
  "sendWebhook env jobId webhookUrl attempt =
     (case getJob (wh_store env attempt) jobId of
        None \<Rightarrow> Inr []
      | Some job \<Rightarrow>
          (case deliver env job webhookUrl attempt of
             Inr u \<Rightarrow> Inr [Post webhookUrl (webhookPayload job webhookUrl attempt)]
           | Inl error \<Rightarrow>
               if attempt < maxAttempts - 1
               then (let delay = retryDelays ! attempt
                     in case sendWebhook env jobId webhookUrl (attempt + 1) of
                          Inl e \<Rightarrow> Inl e
                        | Inr effects \<Rightarrow>
                            Inr (Post webhookUrl (webhookPayload job webhookUrl attempt)
                                 # Sleep delay # effects))
               else Inr [Post webhookUrl (webhookPayload job webhookUrl attempt)]))"
  by pat_completeness auto
termination
  by (relation "measure (\<lambda>(env, jobId, webhookUrl, attempt). maxAttempts - attempt)")
     (auto simp add: maxAttempts_def)

declare sendWebhook.simps [simp del]

fun posts :: "WebhookEffect list \<Rightarrow> nat" where
  "posts [] = 0"
| "posts (Post url payload # effects) = Suc (posts effects)"
| "posts (Sleep delay # effects) = posts effects"

text \<open>
  The time line of a run: \<open>None\<close> for a post, \<open>Some d\<close> for a wait of \<open>d\<close>
  milliseconds.
\<close>

fun timeline :: "WebhookEffect list \<Rightarrow> nat option list" where
  "timeline [] = []"
| "timeline (Post url payload # effects) = None # timeline effects"
| "timeline (Sleep delay # effects) = Some delay # timeline effects"

text \<open>
  \<open>attemptFails env jobId webhookUrl k\<close>: the attempt number \<open>k\<close> finds the job and
  its delivery throws (a response that is not a success, or a transport failure).
\<close>

definition attemptFails :: "WebhookEnv \<Rightarrow> string \<Rightarrow> string \<Rightarrow> nat \<Rightarrow> bool" where
  "attemptFails env jobId webhookUrl k =
     (case getJob (wh_store env k) jobId of
        None \<Rightarrow> False
      | Some job \<Rightarrow> isl (deliver env job webhookUrl k))"

text \<open>
  An endpoint that answers the first two posts with HTTP 500 and every later one with
  200, and one that always answers 500; the job store holds the three-item job after
  its batch has run.
\<close>

definition failsTwice :: WebhookEnv where
  "failsTwice =
     \<lparr> wh_store = (\<lambda>attempt. runEvents threeItemStore ''J'' secondItemFails),
       wh_fetch = (\<lambda>attempt url payload.
          if attempt < 2 then Response 500 ''Internal Server Error'' else Response 200 ''OK'') \<rparr>"

definition failsAlways :: WebhookEnv where
  "failsAlways =
     \<lparr> wh_store = (\<lambda>attempt. runEvents threeItemStore ''J'' secondItemFails),
       wh_fetch = (\<lambda>attempt url payload. Response 500 ''Internal Server Error'') \<rparr>"

section \<open>Errors (modules/redaction/errors)\<close>

fun isError :: "Thrown \<Rightarrow> bool" where
  "isError (NonErrorValue s) = False"
| "isError e = True"

fun thrownName :: "Thrown \<Rightarrow> string" where
  "thrownName (PlainError name message) = name"
| "thrownName (S3ServiceError message code statusCode) = ''S3ServiceError''"
| "thrownName (RedactionServiceError message code statusCode) = ''RedactionServiceError''"
| "thrownName (ImagePipelineError message) = ''ImagePipelineError''"
| "thrownName (RedactionErr r) = re_name r"
| "thrownName (NonErrorValue s) = []"

fun thrownMessage :: "Thrown \<Rightarrow> string" where
  "thrownMessage (PlainError name message) = message"
| "thrownMessage (S3ServiceError message code statusCode) = message"
| "thrownMessage (RedactionServiceError message code statusCode) = message"
| "thrownMessage (ImagePipelineError message) = message"
| "thrownMessage (RedactionErr r) = re_message r"
| "thrownMessage (NonErrorValue s) = []"

text \<open>The \<open>code\<close> and \<open>statusCode\<close> properties; \<open>None\<close> is \<open>undefined\<close>.\<close>

fun thrownCode :: "Thrown \<Rightarrow> string option" where
  "thrownCode (S3ServiceError message code statusCode) = Some code"
| "thrownCode (RedactionServiceError message code statusCode) = Some code"
| "thrownCode (RedactionErr r) = Some (re_code r)"
| "thrownCode e = None"

fun thrownStatusCode :: "Thrown \<Rightarrow> nat option" where
  "thrownStatusCode (S3ServiceError message code statusCode) = Some statusCode"
| "thrownStatusCode (RedactionServiceError message code statusCode) = Some statusCode"
| "thrownStatusCode (RedactionErr r) = Some (re_statusCode r)"
| "thrownStatusCode e = None"

definition includes_str :: "string \<Rightarrow> string \<Rightarrow> bool" where
  "includes_str s needle \<longleftrightarrow> sublist needle s"

definition ValidationError :: "string \<Rightarrow> RedactionError" where
  "ValidationError message =
     \<lparr> re_name = ''ValidationError'', re_message = message,
       re_code = ''VALIDATION_ERROR'', re_statusCode = 400 \<rparr>"

definition LimitExceededError :: "string \<Rightarrow> RedactionError" where
  "LimitExceededError message =
     \<lparr> re_name = ''LimitExceededError'', re_message = message,
       re_code = ''LIMIT_EXCEEDED'', re_statusCode = 413 \<rparr>"

definition UnsupportedMediaError :: "string \<Rightarrow> RedactionError" where
  "UnsupportedMediaError message =
     \<lparr> re_name = ''UnsupportedMediaError'', re_message = message,
       re_code = ''UNSUPPORTED_MEDIA'', re_statusCode = 415 \<rparr>"

definition S3Error :: "string \<Rightarrow> nat \<Rightarrow> RedactionError" where
  "S3Error message statusCode =
     \<lparr> re_name = ''S3Error'', re_message = message,
       re_code = ''S3_ERROR'', re_statusCode = statusCode \<rparr>"

definition PipelineError :: "string \<Rightarrow> RedactionError" where
  "PipelineError message =
     \<lparr> re_name = ''PipelineError'', re_message = message,
       re_code = ''PIPELINE_ERROR'', re_statusCode = 500 \<rparr>"

definition InternalError :: "string \<Rightarrow> RedactionError" where
  "InternalError message =
     \<lparr> re_name = ''InternalError'', re_message = message,
       re_code = ''INTERNAL_ERROR'', re_statusCode = 500 \<rparr>"

text \<open>
  \<open>normalizeError\<close>. \<open>a || b\<close> on a number or a string takes \<open>b\<close> when \<open>a\<close> is
  \<open>undefined\<close>, 0 or the empty string.
\<close>

definition normalizeError :: "Thrown \<Rightarrow> RedactionError" where
  "normalizeError error =
     (case error of
        RedactionErr r \<Rightarrow> r
      | NonErrorValue s \<Rightarrow> InternalError ''Unknown error occurred''
      | _ \<Rightarrow>
          if thrownName error = ''ValidationError'' then ValidationError (thrownMessage error)
          else if thrownName error = ''PayloadTooLargeError''
                  \<or> includes_str (thrownMessage error) ''exceeds maximum''
          then LimitExceededError (thrownMessage error)
          else if includes_str (thrownMessage error) ''MIME''
                  \<or> includes_str (thrownMessage error) ''Unsupported''
          then UnsupportedMediaError (thrownMessage error)
          else if thrownName error = ''ImagePipelineError'' then PipelineError (thrownMessage error)
          else if thrownName error = ''S3ServiceError''
          then S3Error (thrownMessage error)
                 (case thrownStatusCode error of
                    None \<Rightarrow> 500
                  | Some c \<Rightarrow> if c = 0 then 500 else c)
          else if thrownName error = ''RedactionServiceError''
          then \<lparr> re_name = ''RedactionError'', re_message = thrownMessage error,
                 re_code = (case thrownCode error of
                              None \<Rightarrow> ''INTERNAL_ERROR''
                            | Some c \<Rightarrow> if c = [] then ''INTERNAL_ERROR'' else c),
                 re_statusCode = (case thrownStatusCode error of
                                    None \<Rightarrow> 500
                                  | Some c \<Rightarrow> if c = 0 then 500 else c) \<rparr>
          else InternalError (thrownMessage error))"

section \<open>Object storage (modules/redaction/s3.service)\<close>

text \<open>
  The storage client is the AWS SDK, outside the repository. What a \<open>client.send\<close> does
  is therefore an argument: a \<open>GetReply\<close> for a \<open>GetObjectCommand\<close> (a body that, read
  to its end, gives a buffer; a response without a body; or a thrown value), a
  \<open>PutReply\<close> for a \<open>PutObjectCommand\<close>.
\<close>

type_synonym Buffer = "nat list"

datatype GetReply =
  GetBody Buffer
  | GetEmptyBody
  | GetThrew Thrown

datatype PutReply =
  PutDone
  | PutThrew Thrown

datatype MetaValue =
  Text string
  | Number real

record S3UploadOptions =
  uo_contentType :: "string option"
  uo_metadata :: "(string \<times> MetaValue) list"

definition getObjectFailure :: "Thrown \<Rightarrow> string \<Rightarrow> string \<Rightarrow> Thrown" where
  "getObjectFailure error bucket key =
     (if isError error \<and> thrownName error = ''NoSuchKey''
      then S3ServiceError (''Object not found: s3://'' @ bucket @ ''/'' @ key) ''OBJECT_NOT_FOUND'' 404
      else if isError error \<and> thrownName error = ''NoSuchBucket''
      then S3ServiceError (''Bucket not found: '' @ bucket) ''BUCKET_NOT_FOUND'' 404
      else if isError error \<and> thrownName error = ''AccessDenied''
      then S3ServiceError (''Access denied to s3://'' @ bucket @ ''/'' @ key) ''ACCESS_DENIED'' 403
      else S3ServiceError
             (''Failed to download object from S3: ''
                @ (case error of NonErrorValue s \<Rightarrow> s | _ \<Rightarrow> thrownMessage error))
             ''S3_DOWNLOAD_ERROR'' 500)"

definition getObject :: "GetReply \<Rightarrow> string \<Rightarrow> string \<Rightarrow> Thrown + Buffer" where
  "getObject reply bucket key =
     (case reply of
        GetBody buffer \<Rightarrow> Inr buffer
      | GetEmptyBody \<Rightarrow>
          Inl (getObjectFailure (PlainError ''Error'' ''Empty response body from S3'') bucket key)
      | GetThrew error \<Rightarrow> Inl (getObjectFailure error bucket key))"

definition putObject :: "PutReply \<Rightarrow> string \<Rightarrow> string \<Rightarrow> Thrown + unit" where
  "putObject reply bucket key =
     (case reply of
        PutDone \<Rightarrow> Inr ()
      | PutThrew error \<Rightarrow>
          Inl (if isError error \<and> thrownName error = ''NoSuchBucket''
               then S3ServiceError (''Bucket not found: '' @ bucket) ''BUCKET_NOT_FOUND'' 404
               else if isError error \<and> thrownName error = ''AccessDenied''
               then S3ServiceError (''Access denied to s3://'' @ bucket @ ''/'' @ key)
                      ''ACCESS_DENIED'' 403
               else S3ServiceError
                      (''Failed to upload object to S3: ''
                         @ (case error of NonErrorValue s \<Rightarrow> s | _ \<Rightarrow> thrownMessage error))
                      ''S3_UPLOAD_ERROR'' 500))"

definition objectExists :: "GetReply \<Rightarrow> Thrown + bool" where
  "objectExists reply =
     (case reply of
        GetThrew error \<Rightarrow>
          if isError error \<and> (thrownName error = ''NoSuchKey'' \<or> thrownName error = ''NotFound'')
          then Inr False
          else Inl error
      | _ \<Rightarrow> Inr True)"

definition getOutputMimeType :: "ImageFormat \<Rightarrow> string" where
  "getOutputMimeType format = (if format = Webp then ''image/webp'' else ''image/jpeg'')"

section \<open>Batch processing (modules/batch/controller, processBatchJob)\<close>

record ProcessedImage =
  pi_buffer :: Buffer
  pi_format :: ImageFormat
  pi_etag :: string
  pi_processingTimeMs :: real
  pi_width :: int
  pi_height :: int

record RedactionOptions =
  ro_format :: "ImageFormat option"
  ro_quality :: "int option"









text \<open>A string is truthy when it is defined and not empty.\<close>

fun truthy :: "string option \<Rightarrow> bool" where
  "truthy None = False"
| "truthy (Some s) = (s \<noteq> [])"


subsection \<open>What a turn of the batch loop leaves behind\<close>








section \<open>Request schemas (modules/redaction/schemas)\<close>

text \<open>
  A request body before validation: a JSON number is a real, a field that may be missing
  is an option, an enumeration is still a string. Each schema is a function that returns
  the parsed value, or \<open>None\<close> where \<open>parse\<close> throws a \<open>ZodError\<close>.
\<close>

record RawCoordinates =
  rc_x :: "real option"
  rc_y :: "real option"
  rc_width :: "real option"
  rc_height :: "real option"
  rc_x_norm :: "real option"
  rc_y_norm :: "real option"
  rc_w_norm :: "real option"
  rc_h_norm :: "real option"

record RawOperation =
  rop_type :: string
  rop_size :: "string option"
  rop_color :: "string option"

record RawRegion =
  rr_coordinates :: RawCoordinates
  rr_operation :: RawOperation

record RawS3Object =
  rb_bucket :: string
  rb_key :: string

record RawOutput =
  rw_bucket :: string
  rw_key :: string
  rw_format :: "string option"
  rw_quality :: "real option"

record RawS3Request =
  rreq_input :: RawS3Object
  rreq_output :: RawOutput
  rreq_regions :: "RawRegion list"
  rreq_idempotency_key :: "string option"

record RawBatchRequest =
  rbr_items :: "RawS3Request list"
  rbr_webhook_url :: "string option"

record BatchRequest =
  br_items :: "S3RedactionRequest list"
  br_webhook_url :: "string option"

definition isInteger :: "real \<Rightarrow> bool" where
  "isInteger v \<longleftrightarrow> of_int \<lfloor>v\<rfloor> = v"

definition pixelCoordinatesSchema :: "RawCoordinates \<Rightarrow> PixelCoordinates option" where
  "pixelCoordinatesSchema c =
     (case (rc_x c, rc_y c, rc_width c, rc_height c) of
        (Some x, Some y, Some w, Some h) \<Rightarrow>
          if isInteger x \<and> 0 \<le> x \<and> isInteger y \<and> 0 \<le> y
             \<and> isInteger w \<and> 1 \<le> w \<and> isInteger h \<and> 1 \<le> h
          then Some \<lparr> pc_x = \<lfloor>x\<rfloor>, pc_y = \<lfloor>y\<rfloor>, pc_width = \<lfloor>w\<rfloor>, pc_height = \<lfloor>h\<rfloor> \<rparr>
          else None
      | _ \<Rightarrow> None)"

definition normalizedCoordinatesSchema :: "RawCoordinates \<Rightarrow> NormalizedCoordinates option" where
  "normalizedCoordinatesSchema c =
     (case (rc_x_norm c, rc_y_norm c, rc_w_norm c, rc_h_norm c) of
        (Some x, Some y, Some w, Some h) \<Rightarrow>
          if 0 \<le> x \<and> x \<le> 1 \<and> 0 \<le> y \<and> y \<le> 1 \<and> 0 \<le> w \<and> w \<le> 1 \<and> 0 \<le> h \<and> h \<le> 1
          then Some \<lparr> x_norm = x, y_norm = y, w_norm = w, h_norm = h \<rparr>
          else None
      | _ \<Rightarrow> None)"

text \<open>The union tries the pixel schema first.\<close>

definition coordinatesSchema :: "RawCoordinates \<Rightarrow> Coordinates option" where
  "coordinatesSchema c =
     (case pixelCoordinatesSchema c of
        Some p \<Rightarrow> Some (Pixel p)
      | None \<Rightarrow> map_option Normalized (normalizedCoordinatesSchema c))"

definition sizeSchema :: "string \<Rightarrow> Size option" where
  "sizeSchema s =
     (if s = ''S'' then Some S else if s = ''M'' then Some M else if s = ''L'' then Some L
      else None)"

definition colorSchema :: "string \<Rightarrow> bool" where
  "colorSchema s =
     (case s of
        [] \<Rightarrow> False
      | c # cs \<Rightarrow> c = CHR ''#'' \<and> (length cs = 6 \<or> length cs = 8)
                 \<and> list_all (\<lambda>d. d \<in> set ''0123456789ABCDEFabcdef'') cs)"

definition operationSchema :: "RawOperation \<Rightarrow> RedactionOperation option" where
  "operationSchema operation =
     (if rop_type operation = ''blur''
      then (case rop_size operation of None \<Rightarrow> None | Some s \<Rightarrow> map_option Blur (sizeSchema s))
      else if rop_type operation = ''pixelate''
      then (case rop_size operation of None \<Rightarrow> None | Some s \<Rightarrow> map_option Pixelate (sizeSchema s))
      else if rop_type operation = ''fill''
      then (case rop_color operation of
              None \<Rightarrow> None
            | Some c \<Rightarrow> if colorSchema c then Some (Fill c) else None)
      else None)"

definition regionSchema :: "RawRegion \<Rightarrow> Region option" where
  "regionSchema r =
     (case coordinatesSchema (rr_coordinates r) of
        None \<Rightarrow> None
      | Some c \<Rightarrow>
          (case operationSchema (rr_operation r) of
             None \<Rightarrow> None
           | Some operation \<Rightarrow> Some \<lparr> rg_coordinates = c, rg_operation = operation \<rparr>))"

definition s3ObjectSchema :: "RawS3Object \<Rightarrow> S3Object option" where
  "s3ObjectSchema ob =
     (if rb_bucket ob \<noteq> [] \<and> rb_key ob \<noteq> []
      then Some \<lparr> s3_bucket = rb_bucket ob, s3_key = rb_key ob \<rparr>
      else None)"

definition formatSchema :: "string option \<Rightarrow> ImageFormat option" where
  "formatSchema f =
     (case f of
        None \<Rightarrow> Some Webp
      | Some s \<Rightarrow> if s = ''webp'' then Some Webp else if s = ''jpeg'' then Some Jpeg else None)"

definition qualitySchema :: "real option \<Rightarrow> int option option" where
  "qualitySchema q =
     (case q of
        None \<Rightarrow> Some None
      | Some v \<Rightarrow> if isInteger v \<and> 1 \<le> v \<and> v \<le> 100 then Some (Some \<lfloor>v\<rfloor>) else None)"

definition outputSchema :: "RawOutput \<Rightarrow> S3Output option" where
  "outputSchema out =
     (if rw_bucket out \<noteq> [] \<and> rw_key out \<noteq> []
      then (case formatSchema (rw_format out) of
              None \<Rightarrow> None
            | Some f \<Rightarrow>
                (case qualitySchema (rw_quality out) of
                   None \<Rightarrow> None
                 | Some q \<Rightarrow> Some \<lparr> out_bucket = rw_bucket out, out_key = rw_key out,
                                    out_format = f, out_quality = q \<rparr>))
      else None)"

definition s3RedactionRequestSchema :: "RawS3Request \<Rightarrow> S3RedactionRequest option" where
  "s3RedactionRequestSchema raw =
     (case s3ObjectSchema (rreq_input raw) of
        None \<Rightarrow> None
      | Some input \<Rightarrow>
          (case outputSchema (rreq_output raw) of
             None \<Rightarrow> None
           | Some output \<Rightarrow>
               if 1 \<le> length (rreq_regions raw) \<and> length (rreq_regions raw) \<le> 20
               then (case those (map regionSchema (rreq_regions raw)) of
                       None \<Rightarrow> None
                     | Some regions \<Rightarrow>
                         Some \<lparr> rq_input = input, rq_output = output, rq_regions = regions,
                                rq_idempotency_key = rreq_idempotency_key raw \<rparr>)
               else None))"

definition batchItemSchema :: "RawS3Request \<Rightarrow> S3RedactionRequest option" where
  "batchItemSchema = s3RedactionRequestSchema"

text \<open>
  \<open>batchRequestSchema\<close>. Whether a string is a URL is decided by the validation library;
  \<open>isUrl\<close> is that test.
\<close>

definition batchRequestSchema :: "(string \<Rightarrow> bool) \<Rightarrow> RawBatchRequest \<Rightarrow> BatchRequest option" where
  "batchRequestSchema isUrl raw =
     (if 1 \<le> length (rbr_items raw) \<and> length (rbr_items raw) \<le> 10
         \<and> (case rbr_webhook_url raw of None \<Rightarrow> True | Some u \<Rightarrow> isUrl u)
      then (case those (map batchItemSchema (rbr_items raw)) of
              None \<Rightarrow> None
            | Some items \<Rightarrow> Some \<lparr> br_items = items, br_webhook_url = rbr_webhook_url raw \<rparr>)
      else None)"

section \<open>Submitting a batch (modules/batch/controller, POST /redact/batch)\<close>

record BatchResponse =
  bresp_job_id :: string
  bresp_items_count :: nat
  bresp_estimated_completion_ms :: nat

datatype BatchReply =
  Accepted BatchResponse
  | Refused ErrorReply

text \<open>
  The handler. Its result is the reply, the job store after the request, and the id of
  the job handed to \<open>setImmediate\<close> for background processing, if any. \<open>zodMessage\<close> is
  the message of the validation error; \<open>jobId\<close> and \<open>now\<close> are the id and the time
  \<open>createJob\<close> draws.
\<close>

definition postRedactBatch ::
  "(string \<Rightarrow> bool) \<Rightarrow> string \<Rightarrow> JobStore \<Rightarrow> RawBatchRequest \<Rightarrow> string \<Rightarrow> Date
     \<Rightarrow> BatchReply \<times> JobStore \<times> string option" where
  "postRedactBatch isUrl zodMessage store body jobId now =
     (case batchRequestSchema isUrl body of
        None \<Rightarrow>
          (Refused \<lparr> er_status = 400, er_code = ''VALIDATION_ERROR'', er_message = zodMessage \<rparr>,
           store, None)
      | Some requestData \<Rightarrow>
          (let (job, store') = createJob store (br_items requestData) (br_webhook_url requestData) jobId now
           in (Accepted \<lparr> bresp_job_id = job_id job,
                          bresp_items_count = length (br_items requestData),
                          bresp_estimated_completion_ms = length (br_items requestData) * 500 \<rparr>,
               store', Some (job_id job))))"

section \<open>S3-to-S3 redaction (modules/redaction/controller, POST /redact/s3)\<close>

text \<open>
  \<open>generateRequestHash\<close> (utils/hash): the keys of the object are sorted, the object is
  rebuilt in that order, serialised and hashed. \<open>JSON.stringify\<close> and SHA-256 are
  arguments. The object is a list of its entries in insertion order.
\<close>

datatype HashField =
  InputField S3Object
  | OutputField S3Output
  | RegionsField "Region list"

definition generateRequestHash ::
  "((string \<times> 'v) list \<Rightarrow> string) \<Rightarrow> (string \<Rightarrow> string) \<Rightarrow> (string \<times> 'v) list \<Rightarrow> string" where
  "generateRequestHash stringify sha256 inputs =
     (let sortedInputs = map (\<lambda>key. (key, the (map_of inputs key))) (sort (map fst inputs));
          inputString = stringify sortedInputs
      in sha256 inputString)"

record S3HandlerEnv =
  se_existsReply :: "string \<Rightarrow> string \<Rightarrow> GetReply"
  se_getReply :: "string \<Rightarrow> string \<Rightarrow> GetReply"
  se_redactImage :: "Buffer \<Rightarrow> Region list \<Rightarrow> RedactionOptions \<Rightarrow> Thrown + ProcessedImage"
  se_putReply :: "string \<Rightarrow> string \<Rightarrow> Buffer \<Rightarrow> S3UploadOptions \<Rightarrow> PutReply"
  se_stringify :: "(string \<times> HashField) list \<Rightarrow> string"
  se_sha256 :: "string \<Rightarrow> string"
  se_zodMessage :: string

datatype StorageCall =
  ExistsCall string string
  | GetCall string string
  | PutCall string string Buffer S3UploadOptions

datatype S3Reply =
  Sent S3RedactionResponse
  | Failure ErrorReply

text \<open>The first statement of the handler: \<open>requestData.idempotency_key || generateRequestHash(...)\<close>.\<close>

definition idempotencyKeyOf :: "S3HandlerEnv \<Rightarrow> S3RedactionRequest \<Rightarrow> string" where
  "idempotencyKeyOf env requestData =
     (if truthy (rq_idempotency_key requestData)
      then the (rq_idempotency_key requestData)
      else generateRequestHash (se_stringify env) (se_sha256 env)
             [(''input'', InputField (rq_input requestData)),
              (''output'', OutputField (rq_output requestData)),
              (''regions'', RegionsField (rq_regions requestData))])"

text \<open>The outer \<open>catch\<close>: the reply built from the normalised error.\<close>

definition errorReply :: "Thrown \<Rightarrow> S3Reply" where
  "errorReply error =
     Failure \<lparr> er_status = re_statusCode (normalizeError error),
               er_code = re_code (normalizeError error),
               er_message = re_message (normalizeError error) \<rparr>"

text \<open>
  The handler. Its result is the reply and the calls it made on the storage service, in
  order. Response headers and the timing wrapper are left out.
\<close>

definition postRedactS3 :: "S3HandlerEnv \<Rightarrow> RawS3Request \<Rightarrow> S3Reply \<times> StorageCall list" where
  "postRedactS3 env body =
     (case s3RedactionRequestSchema body of
        None \<Rightarrow>
          (Failure \<lparr> er_status = 400, er_code = ''VALIDATION_ERROR'',
                     er_message = se_zodMessage env \<rparr>, [])
      | Some requestData \<Rightarrow>
          (let idempotencyKey = idempotencyKeyOf env requestData;
               input = rq_input requestData;
               output = rq_output requestData;
               existsCall = ExistsCall (out_bucket output) (out_key output);
               getCall = GetCall (s3_bucket input) (s3_key input)
           in case objectExists (se_existsReply env (out_bucket output) (out_key output)) of
                Inl e \<Rightarrow> (errorReply e, [existsCall])
              | Inr outputExists \<Rightarrow>
                  if outputExists \<and> truthy (rq_idempotency_key requestData)
                  then (Sent \<lparr> rs_ok = True, rs_output = Some output,
                               rs_processing_time_ms = 0, rs_etag = None \<rparr>,
                        [existsCall])
                  else
                    (case getObject (se_getReply env (s3_bucket input) (s3_key input))
                            (s3_bucket input) (s3_key input) of
                       Inl e \<Rightarrow> (errorReply e, [existsCall, getCall])
                     | Inr inputBuffer \<Rightarrow>
                         (case se_redactImage env inputBuffer (rq_regions requestData)
                                 \<lparr> ro_format = Some (out_format output),
                                   ro_quality = out_quality output \<rparr> of
                            Inl e \<Rightarrow> (errorReply e, [existsCall, getCall])
                          | Inr processed \<Rightarrow>
                              (let options =
                                     \<lparr> uo_contentType = Some (getOutputMimeType (pi_format processed)),
                                       uo_metadata =
                                         [(''x-redaction-etag'',
                                             Text (filter (\<lambda>c. c \<noteq> CHR 0x22) (pi_etag processed))),
                                          (''x-processing-time-ms'', Number (pi_processingTimeMs processed)),
                                          (''x-idempotency-key'', Text idempotencyKey)] \<rparr>;
                                   putCall = PutCall (out_bucket output) (out_key output)
                                               (pi_buffer processed) options
                               in case putObject
                                         (se_putReply env (out_bucket output) (out_key output)
                                            (pi_buffer processed) options)
                                         (out_bucket output) (out_key output) of
                                    Inl e \<Rightarrow> (errorReply e, [existsCall, getCall, putCall])
                                  | Inr u \<Rightarrow>
                                      (Sent \<lparr> rs_ok = True, rs_output = Some output,
                                              rs_processing_time_ms = pi_processingTimeMs processed,
                                              rs_etag = Some (pi_etag processed) \<rparr>,
                                       [existsCall, getCall, putCall]))))))"

text \<open>
  The skip-if-exists branch, as seen from outside: the only storage call is the existence
  check, and the reply is success with a processing time of 0 and no etag.
\<close>

definition skipped :: "S3RedactionRequest \<Rightarrow> S3Reply \<times> StorageCall list \<Rightarrow> bool" where
  "skipped requestData result \<longleftrightarrow>
     result = (Sent \<lparr> rs_ok = True, rs_output = Some (rq_output requestData),
                      rs_processing_time_ms = 0, rs_etag = None \<rparr>,
               [ExistsCall (out_bucket (rq_output requestData)) (out_key (rq_output requestData))])"

fun isPutCall :: "StorageCall \<Rightarrow> bool" where
  "isPutCall (PutCall bucket key buffer options) = True"
| "isPutCall c = False"

text \<open>
  A request body for the S3 endpoint with a given \<open>idempotency_key\<close>, and a world in
  which the destination object already exists and every storage and redaction call
  succeeds.
\<close>

definition exampleRawRequest :: "string option \<Rightarrow> RawS3Request" where
  "exampleRawRequest key =
     \<lparr> rreq_input = \<lparr> rb_bucket = ''in'', rb_key = ''a'' \<rparr>,
       rreq_output = \<lparr> rw_bucket = ''out'', rw_key = ''a'', rw_format = Some ''webp'', rw_quality = None \<rparr>,
       rreq_regions =
         [\<lparr> rr_coordinates =
               \<lparr> rc_x = Some 0, rc_y = Some 0, rc_width = Some 10, rc_height = Some 10,
                 rc_x_norm = None, rc_y_norm = None, rc_w_norm = None, rc_h_norm = None \<rparr>,
             rr_operation = \<lparr> rop_type = ''fill'', rop_size = None, rop_color = Some ''#112233'' \<rparr> \<rparr>],
       rreq_idempotency_key = key \<rparr>"

definition outputPresent :: S3HandlerEnv where
  "outputPresent =
     \<lparr> se_existsReply = (\<lambda>bucket key. GetBody [9]),
       se_getReply = (\<lambda>bucket key. GetBody [1, 2, 3]),
       se_redactImage = (\<lambda>buffer regions options.
          Inr \<lparr> pi_buffer = buffer, pi_format = Webp, pi_etag = ''abc'',
                pi_processingTimeMs = 12, pi_width = 400, pi_height = 300 \<rparr>),
       se_putReply = (\<lambda>bucket key buffer options. PutDone),
       se_stringify = (\<lambda>fields. concat (map fst fields)),
       se_sha256 = (\<lambda>s. ''sha256:'' @ s),
       se_zodMessage = ''invalid request'' \<rparr>"

section \<open>The redaction pipeline (modules/redaction/pipeline)\<close>

text \<open>
  The image library (sharp) is outside the repository. A \<open>Sharp\<close> object is a pipeline
  under construction: an input and the operations chained on it so far. Nothing is
  computed until \<open>toBuffer\<close> runs the pipeline; what the library then computes, or that
  it throws, is the argument \<open>toBuffer\<close> of the functions below.
\<close>

datatype Kernel = Nearest | DefaultKernel

datatype Blend = Over

record Rgba =
  rgba_r :: nat
  rgba_g :: nat
  rgba_b :: nat
  rgba_alpha :: real

datatype SharpInput =
  FromBuffer Buffer
  | Create int int nat Rgba

datatype SharpOp =
  ExtractOp int int int int
  | BlurOp real
  | ResizeOp int int Kernel
  | CompositeOp Buffer int int "Blend option"
  | PngOp

record Sharp =
  sh_input :: SharpInput
  sh_ops :: "SharpOp list"

definition BLUR_SIZE_MAP :: "Size \<Rightarrow> real" where
  "BLUR_SIZE_MAP sz = (case sz of S \<Rightarrow> 3 | M \<Rightarrow> 6 | L \<Rightarrow> 12)"

definition PIXELATE_SIZE_MAP :: "Size \<Rightarrow> int" where
  "PIXELATE_SIZE_MAP sz = (case sz of S \<Rightarrow> 6 | M \<Rightarrow> 12 | L \<Rightarrow> 24)"

definition applyBlur ::
  "(Sharp \<Rightarrow> Thrown + Buffer) \<Rightarrow> Sharp \<Rightarrow> PixelCoordinates \<Rightarrow> real \<Rightarrow> Thrown + Sharp" where
  "applyBlur toBuffer img coords sigma =
     (case toBuffer img of
        Inl e \<Rightarrow> Inl e
      | Inr currentBuffer \<Rightarrow>
          (case toBuffer \<lparr> sh_input = FromBuffer currentBuffer,
                           sh_ops = [ExtractOp (pc_x coords) (pc_y coords)
                                       (pc_width coords) (pc_height coords),
                                     BlurOp sigma] \<rparr> of
             Inl e \<Rightarrow> Inl e
           | Inr region \<Rightarrow>
               Inr \<lparr> sh_input = FromBuffer currentBuffer,
                     sh_ops = [CompositeOp region (pc_x coords) (pc_y coords) None] \<rparr>))"

text \<open>
  \<open>applyPixelate\<close>. \<open>coords.width / blockSize\<close> is a division of numbers, and
  \<open>Math.floor\<close> its floor.
\<close>

definition applyPixelate ::
  "(Sharp \<Rightarrow> Thrown + Buffer) \<Rightarrow> Sharp \<Rightarrow> PixelCoordinates \<Rightarrow> int \<Rightarrow> Thrown + Sharp" where
  "applyPixelate toBuffer img coords blockSize =
     (case toBuffer img of
        Inl e \<Rightarrow> Inl e
      | Inr currentBuffer \<Rightarrow>
          (let pixelWidth = max 1 \<lfloor>real_of_int (pc_width coords) / real_of_int blockSize\<rfloor>;
               pixelHeight = max 1 \<lfloor>real_of_int (pc_height coords) / real_of_int blockSize\<rfloor>
           in case toBuffer \<lparr> sh_input = FromBuffer currentBuffer,
                              sh_ops = [ExtractOp (pc_x coords) (pc_y coords)
                                          (pc_width coords) (pc_height coords),
                                        ResizeOp pixelWidth pixelHeight Nearest,
                                        ResizeOp (pc_width coords) (pc_height coords) Nearest] \<rparr> of
                Inl e \<Rightarrow> Inl e
              | Inr region \<Rightarrow>
                  Inr \<lparr> sh_input = FromBuffer currentBuffer,
                        sh_ops = [CompositeOp region (pc_x coords) (pc_y coords) None] \<rparr>))"

text \<open>
  \<open>parseInt(s, 16)\<close> on a string of hexadecimal digits, which is what the colour schema
  leaves. \<open>color.replace('#', '')\<close> removes the first \<open>#\<close>.
\<close>

definition hexDigitValue :: "char \<Rightarrow> nat" where
  "hexDigitValue c =
     (if CHR ''0'' \<le> c \<and> c \<le> CHR ''9'' then of_char c - 48
      else if CHR ''a'' \<le> c \<and> c \<le> CHR ''f'' then of_char c - 87
      else of_char c - 55)"

definition parseHex :: "string \<Rightarrow> nat" where
  "parseHex s = foldl (\<lambda>acc c. 16 * acc + hexDigitValue c) 0 s"

fun removeFirstHash :: "string \<Rightarrow> string" where
  "removeFirstHash [] = []"
| "removeFirstHash (c # cs) = (if c = CHR ''#'' then cs else c # removeFirstHash cs)"

definition applyFill ::
  "(Sharp \<Rightarrow> Thrown + Buffer) \<Rightarrow> Sharp \<Rightarrow> PixelCoordinates \<Rightarrow> string \<Rightarrow> Thrown + Sharp" where
  "applyFill toBuffer img coords color =
     (case toBuffer img of
        Inl e \<Rightarrow> Inl e
      | Inr currentBuffer \<Rightarrow>
          (let hex = removeFirstHash color;
               r = parseHex (take 2 hex);
               g = parseHex (take 2 (drop 2 hex));
               b = parseHex (take 2 (drop 4 hex));
               a = (if length hex = 8 then parseHex (take 2 (drop 6 hex)) else 255)
           in case toBuffer \<lparr> sh_input = Create (pc_width coords) (pc_height coords) 4
                                           \<lparr> rgba_r = r, rgba_g = g, rgba_b = b,
                                             rgba_alpha = real a / 255 \<rparr>,
                              sh_ops = [PngOp] \<rparr> of
                Inl e \<Rightarrow> Inl e
              | Inr overlay \<Rightarrow>
                  Inr \<lparr> sh_input = FromBuffer currentBuffer,
                        sh_ops = [CompositeOp overlay (pc_x coords) (pc_y coords) (Some Over)] \<rparr>))"

definition applyOperation ::
  "(Sharp \<Rightarrow> Thrown + Buffer) \<Rightarrow> Sharp \<Rightarrow> PixelCoordinates \<Rightarrow> RedactionOperation \<Rightarrow> Thrown + Sharp" where
  "applyOperation toBuffer img coords operation =
     (case operation of
        Blur sz \<Rightarrow> applyBlur toBuffer img coords (BLUR_SIZE_MAP sz)
      | Pixelate sz \<Rightarrow> applyPixelate toBuffer img coords (PIXELATE_SIZE_MAP sz)
      | Fill color \<Rightarrow> applyFill toBuffer img coords color)"

text \<open>
  A stand-in for the library, used where a property is evaluated: a buffer is a list of
  numbers, and running a pipeline appends to its input, for every operation, a code and
  the operation's numbers.
\<close>

fun opTrace :: "SharpOp \<Rightarrow> nat list" where
  "opTrace (ExtractOp x0 y0 w h) = [1, nat x0, nat y0, nat w, nat h]"
| "opTrace (BlurOp sigma) = [2]"
| "opTrace (ResizeOp w h k) = [3, nat w, nat h]"
| "opTrace (CompositeOp overlay x0 y0 blend) = [4, nat x0, nat y0]"
| "opTrace PngOp = [5]"

definition traceToBuffer :: "Sharp \<Rightarrow> Thrown + Buffer" where
  "traceToBuffer img =
     Inr ((case sh_input img of FromBuffer b \<Rightarrow> b | Create w h channels background \<Rightarrow> [])
          @ concat (map opTrace (sh_ops img)))"

text \<open>
  A second stand-in, for the one rule of the library that \<open>applyPixelate\<close> meets. In
  sharp a call of \<open>resize\<close> does not add a step to the pipeline: it sets the pipeline's
  width, height and kernel options, so a later call overwrites an earlier one and the
  pipeline, when run, resizes once. \<open>lastResizeOnly\<close> keeps of the \<open>resize\<close> calls of a
  chain the last one, and \<open>lastResizeToBuffer\<close> runs what is left as \<open>traceToBuffer\<close>
  does.
\<close>

fun isResizeOp :: "SharpOp \<Rightarrow> bool" where
  "isResizeOp (ResizeOp w h k) = True"
| "isResizeOp operation = False"

fun lastResizeOnly :: "SharpOp list \<Rightarrow> SharpOp list" where
  "lastResizeOnly [] = []"
| "lastResizeOnly (operation # operations) =
     (if isResizeOp operation \<and> list_ex isResizeOp operations
      then lastResizeOnly operations
      else operation # lastResizeOnly operations)"

definition lastResizeToBuffer :: "Sharp \<Rightarrow> Thrown + Buffer" where
  "lastResizeToBuffer img = traceToBuffer (img\<lparr> sh_ops := lastResizeOnly (sh_ops img) \<rparr>)"

text \<open>A URL test that accepts every string.\<close>

definition anyUrl :: "string \<Rightarrow> bool" where
  "anyUrl u = True"

text \<open>\<open>expiredAt now p\<close>: the entry \<open>p\<close> of the store is older than the TTL at time \<open>now\<close>.\<close>

definition expiredAt :: "Date \<Rightarrow> string \<times> Job \<Rightarrow> bool" where
  "expiredAt now p \<longleftrightarrow> now - job_createdAt (snd p) > JOB_TTL_MS"

section \<open>Properties of the coordinate resolver\<close>

text \<open>
  C8. The resolver leaves an in-bounds pixel rectangle unchanged: when \<open>x \<ge> 0\<close>,
  \<open>y \<ge> 0\<close>, \<open>width \<ge> 1\<close>, \<open>height \<ge> 1\<close>, \<open>x + width\<close> is at most the image width and
  \<open>y + height\<close> at most the image height, \<open>processCoordinates\<close> returns the rectangle
  it was given.
\<close>

theorem processCoordinates_in_bounds_unchanged:
  assumes "0 \<le> pc_x r" and "0 \<le> pc_y r"
    and "1 \<le> pc_width r" and "1 \<le> pc_height r"
    and "pc_x r + pc_width r \<le> dim_width d"
    and "pc_y r + pc_height r \<le> dim_height d"
  shows "processCoordinates (Pixel r) d = Inr r"
proof -
  have "clampToImageBounds r d = r"
    using assms by (cases r) (simp add: clampToImageBounds_def Let_def)
  then show ?thesis
    by (simp add: processCoordinates_def)
qed

theorem processCoordinates_in_bounds_unchanged_witness:
  "(0::int) \<le> 310 \<and> (0::int) \<le> 20 \<and> (1::int) \<le> 90 \<and> (1::int) \<le> 280
   \<and> (310::int) + 90 \<le> 400 \<and> (20::int) + 280 \<le> 300
   \<and> processCoordinates
        (Pixel \<lparr> pc_x = 310, pc_y = 20, pc_width = 90, pc_height = 280 \<rparr>)
        \<lparr> dim_width = 400, dim_height = 300 \<rparr>
      = Inr \<lparr> pc_x = 310, pc_y = 20, pc_width = 90, pc_height = 280 \<rparr>"
  using processCoordinates_in_bounds_unchanged
    [of "\<lparr> pc_x = 310, pc_y = 20, pc_width = 90, pc_height = 280 \<rparr>"
        "\<lparr> dim_width = 400, dim_height = 300 \<rparr>"]
  by simp

text \<open>
  C1, evaluated where it fails. A pixel rectangle whose \<open>x\<close> equals the image width
  (400 on a 400 by 300 image) is resolved to \<open>x = 400\<close>, \<open>width = 1\<close>: \<open>x\<close> is clamped
  into the closed interval from 0 to the width, not the half-open one, so \<open>x < 400\<close>
  and \<open>x + width \<le> 400\<close> both fail.
\<close>

theorem processCoordinates_x_at_image_width:
  "processCoordinates
     (Pixel \<lparr> pc_x = 400, pc_y = 0, pc_width = 10, pc_height = 10 \<rparr>)
     \<lparr> dim_width = 400, dim_height = 300 \<rparr>
   = Inr \<lparr> pc_x = 400, pc_y = 0, pc_width = 1, pc_height = 10 \<rparr>"
  by (simp add: processCoordinates_def clampToImageBounds_def)

text \<open>
  What the clamp does guarantee, for any pixel rectangle and any image at least one pixel
  wide and high: \<open>0 \<le> x \<le> image width\<close>, \<open>0 \<le> y \<le> image height\<close>, and width and
  height at least 1; and when the given \<open>x\<close> and \<open>y\<close> lie strictly inside the image,
  the four bounds of C1 as well.
\<close>

lemma clampToImageBounds_weak_bounds:
  assumes "1 \<le> dim_width d" and "1 \<le> dim_height d"
  shows "0 \<le> pc_x (clampToImageBounds p d) \<and> pc_x (clampToImageBounds p d) \<le> dim_width d
    \<and> 0 \<le> pc_y (clampToImageBounds p d) \<and> pc_y (clampToImageBounds p d) \<le> dim_height d
    \<and> 1 \<le> pc_width (clampToImageBounds p d) \<and> 1 \<le> pc_height (clampToImageBounds p d)"
  using assms by (simp add: clampToImageBounds_def Let_def)

lemma clampToImageBounds_inside:
  assumes "1 \<le> dim_width d" and "1 \<le> dim_height d"
    and "pc_x p < dim_width d" and "pc_y p < dim_height d"
  shows "0 \<le> pc_x (clampToImageBounds p d) \<and> pc_x (clampToImageBounds p d) < dim_width d
    \<and> 0 \<le> pc_y (clampToImageBounds p d) \<and> pc_y (clampToImageBounds p d) < dim_height d
    \<and> pc_x (clampToImageBounds p d) + pc_width (clampToImageBounds p d) \<le> dim_width d
    \<and> pc_y (clampToImageBounds p d) + pc_height (clampToImageBounds p d) \<le> dim_height d
    \<and> 1 \<le> pc_width (clampToImageBounds p d) \<and> 1 \<le> pc_height (clampToImageBounds p d)"
  using assms by (auto simp add: clampToImageBounds_def Let_def)

section \<open>Properties of the job store\<close>

lemmas jobStore_defs = createJob_def cleanupOldJobs_def getJob_def startJobItem_def
  completeJobItem_def failJobItem_def updateJobItem_def updateJobProgress_def spread_def
  noUpdate_def Let_def showNat.simps isTerminal_def

lemma map_of_Map_set: "map_of (Map_set k v m) k' = (if k' = k then Some v else map_of m k')"
  by (induction m) auto

lemma findIndex_Some: "findIndex P xs = Some i \<Longrightarrow> i < length xs \<and> P (xs ! i)"
proof (induction xs arbitrary: i)
  case Nil
  then show ?case by simp
next
  case (Cons x xs)
  then show ?case by (auto split: if_splits)
qed

lemma count_terminal:
  "length (filter (\<lambda>item. item_status item = Completed) xs)
   + length (filter (\<lambda>item. item_status item = Failed) xs) = length (filter isTerminal xs)"
  by (induction xs) (auto simp: isTerminal_def)

lemma count_terminal_all:
  "length (filter isTerminal xs) = length xs \<longleftrightarrow> list_all isTerminal xs"
proof -
  have "length (filter isTerminal xs) + length (filter (\<lambda>x. \<not> isTerminal x) xs) = length xs"
    by (rule sum_length_filter_compl)
  then have "length (filter isTerminal xs) = length xs \<longleftrightarrow> filter (\<lambda>x. \<not> isTerminal x) xs = []"
    by auto
  then show ?thesis by (simp add: filter_empty_conv list_all_iff)
qed

lemma updateJobProgress_items [simp]: "job_items (updateJobProgress job now) = job_items job"
  by (simp add: updateJobProgress_def Let_def)

lemma updateJobProgress_progress:
  "job_progress (updateJobProgress job now) =
     (job_progress job)\<lparr> pg_completed := length (filter (\<lambda>item. item_status item = Completed) (job_items job)),
                         pg_failed := length (filter (\<lambda>item. item_status item = Failed) (job_items job)) \<rparr>"
  by (simp add: updateJobProgress_def Let_def)

lemma updateJobProgress_status:
  assumes "pg_total (job_progress job) = length (job_items job)"
  shows "job_status (updateJobProgress job now) =
     (if list_all isTerminal (job_items job)
      then (if length (filter (\<lambda>item. item_status item = Failed) (job_items job)) = 0 then Completed else Failed)
      else if job_status job = Pending then Processing else job_status job)"
  using assms count_terminal[of "job_items job"] count_terminal_all[of "job_items job"]
  by (simp add: updateJobProgress_def Let_def)

lemma updateJobProgress_inv:
  assumes "pg_total (job_progress job) = length (job_items job)"
    and "job_status job = Completed \<or> job_status job = Failed \<longrightarrow> list_all isTerminal (job_items job)"
  shows "jobInv (updateJobProgress job now)"
  unfolding jobInv_def
  using assms by (auto simp add: updateJobProgress_progress updateJobProgress_status)

lemma updateJobItem_Some:
  assumes "updateJobItem store jobId itemId update now = Inr store'"
  shows "\<exists>job itemIndex. getJob store jobId = Some job
     \<and> findIndex (\<lambda>item. item_id item = itemId) (job_items job) = Some itemIndex
     \<and> getJob store' jobId = Some (updateJobProgress
           (job\<lparr> job_items := (job_items job)[itemIndex := spread (job_items job ! itemIndex) update] \<rparr>) now)"
  using assms
  by (auto simp add: updateJobItem_def getJob_def Let_def map_of_Map_set split: option.splits)

lemma list_all_update:
  "list_all P xs \<Longrightarrow> P y \<Longrightarrow> list_all P (xs[i := y])"
  by (induction xs arbitrary: i) (auto split: nat.splits)

lemma list_all_update_not:
  "i < length xs \<Longrightarrow> \<not> P y \<Longrightarrow> \<not> list_all P (xs[i := y])"
  by (metis list_all_length length_list_update nth_list_update_eq)

lemma updateJobItem_inv:
  assumes upd: "updateJobItem store jobId itemId update now = Inr store'"
    and get: "getJob store jobId = Some job"
    and inv: "jobInv job"
    and ok: "up_status update = Some Completed \<or> up_status update = Some Failed
       \<or> (up_status update = Some Processing
           \<and> (\<forall>itemIndex. findIndex (\<lambda>item. item_id item = itemId) (job_items job) = Some itemIndex
                \<longrightarrow> \<not> isTerminal (job_items job ! itemIndex)))"
  shows "\<exists>job'. getJob store' jobId = Some job' \<and> jobInv job'"
proof -
  from updateJobItem_Some[OF upd] get obtain itemIndex where
    idx: "findIndex (\<lambda>item. item_id item = itemId) (job_items job) = Some itemIndex"
    and get': "getJob store' jobId = Some (updateJobProgress
           (job\<lparr> job_items := (job_items job)[itemIndex := spread (job_items job ! itemIndex) update] \<rparr>) now)"
    by auto
  let ?item = "spread (job_items job ! itemIndex) update"
  let ?job1 = "job\<lparr> job_items := (job_items job)[itemIndex := ?item] \<rparr>"
  from findIndex_Some[OF idx] have lt: "itemIndex < length (job_items job)" by simp
  have total: "pg_total (job_progress ?job1) = length (job_items ?job1)"
    using inv by (simp add: jobInv_def)
  have "job_status ?job1 = Completed \<or> job_status ?job1 = Failed \<longrightarrow> list_all isTerminal (job_items ?job1)"
  proof
    assume st: "job_status ?job1 = Completed \<or> job_status ?job1 = Failed"
    then have all: "list_all isTerminal (job_items job)"
      using inv by (simp add: jobInv_def)
    then have "isTerminal (job_items job ! itemIndex)"
      using lt by (simp add: list_all_length)
    with ok idx have "isTerminal ?item"
      by (auto simp add: isTerminal_def spread_def)
    with all show "list_all isTerminal (job_items ?job1)"
      by (simp add: list_all_update)
  qed
  with total have "jobInv (updateJobProgress ?job1 now)"
    by (rule updateJobProgress_inv)
  with get' show ?thesis by blast
qed

lemma applyEvent_inv:
  assumes ap: "applyEvent store jobId ev now = Inr store'"
    and get: "getJob store jobId = Some job"
    and inv: "jobInv job"
    and nr: "\<not> restarts store jobId ev"
  shows "\<exists>job'. getJob store' jobId = Some job' \<and> jobInv job'"
proof (cases ev)
  case (StartJobItem itemId)
  let ?u = "noUpdate\<lparr> up_status := Some Processing, up_startedAt := Some now \<rparr>"
  from ap StartJobItem have upd: "updateJobItem store jobId itemId ?u now = Inr store'"
    by (simp add: startJobItem_def)
  from nr StartJobItem get have
    "\<forall>itemIndex. findIndex (\<lambda>item. item_id item = itemId) (job_items job) = Some itemIndex
        \<longrightarrow> \<not> isTerminal (job_items job ! itemIndex)"
    by auto
  then show ?thesis
    by (intro updateJobItem_inv[OF upd get inv]) (simp add: noUpdate_def)
next
  case (CompleteJobItem itemId result)
  let ?u = "noUpdate\<lparr> up_status := Some Completed, up_result := Some result,
                  up_completedAt := Some now \<rparr>"
  from ap CompleteJobItem have upd: "updateJobItem store jobId itemId ?u now = Inr store'"
    by (simp add: completeJobItem_def)
  show ?thesis
    by (rule updateJobItem_inv[OF upd get inv]) (simp add: noUpdate_def)
next
  case (FailJobItem itemId error)
  let ?u = "noUpdate\<lparr> up_status := Some Failed, up_error := Some error,
                  up_completedAt := Some now \<rparr>"
  from ap FailJobItem have upd: "updateJobItem store jobId itemId ?u now = Inr store'"
    by (simp add: failJobItem_def)
  show ?thesis
    by (rule updateJobItem_inv[OF upd get inv]) (simp add: noUpdate_def)
qed

lemma runEvents_inv:
  assumes "getJob store jobId = Some job" and "jobInv job" and "noRestart store jobId evs"
  shows "\<exists>job'. getJob (runEvents store jobId evs) jobId = Some job' \<and> jobInv job'"
  using assms
proof (induction evs arbitrary: store job)
  case Nil
  then show ?case by simp
next
  case (Cons a evs)
  obtain ev now where a: "a = (ev, now)" by (cases a)
  show ?case
  proof (cases "applyEvent store jobId ev now")
    case (Inl e)
    with Cons a show ?thesis by simp
  next
    case (Inr store')
    with Cons.prems a have nr: "\<not> restarts store jobId ev" and rest: "noRestart store' jobId evs"
      by simp_all
    from applyEvent_inv[OF Inr Cons.prems(1) Cons.prems(2) nr]
    obtain job' where "getJob store' jobId = Some job'" and "jobInv job'" by blast
    from Cons.IH[OF this rest] Inr a show ?thesis by simp
  qed
qed


lemma createJob_getJob:
  "createJob store requests webhookUrl jobId now = (job, store') \<Longrightarrow> getJob store' jobId = Some job"
  by (auto simp add: createJob_def Let_def getJob_def map_of_Map_set)

lemma createJob_inv:
  assumes "createJob store requests webhookUrl jobId now = (job, store')" and "requests \<noteq> []"
  shows "jobInv job"
proof -
  from assms(1) have items: "job_items job = map (\<lambda>(index, request).
                       \<lparr> item_id = jobId @ ''-'' @ showNat index,
                         item_request = request,
                         item_status = Pending,
                         item_result = None, item_error = None,
                         item_startedAt = None, item_completedAt = None \<rparr>)
                     (enumerate 0 requests)"
    and st: "job_status job = Pending"
    and pg: "job_progress job = \<lparr> pg_total = length requests, pg_completed = 0, pg_failed = 0 \<rparr>"
    by (auto simp add: createJob_def Let_def)
  have pend: "\<forall>item \<in> set (job_items job). item_status item = Pending"
    by (auto simp add: items)
  then have c: "filter (\<lambda>item. item_status item = Completed) (job_items job) = []"
    and f: "filter (\<lambda>item. item_status item = Failed) (job_items job) = []"
    by (auto simp add: filter_empty_conv)
  from assms(2) have "job_items job \<noteq> []" by (cases requests) (simp_all add: items)
  then obtain item where "item \<in> set (job_items job)" by (cases "job_items job") auto
  with pend have "\<not> list_all isTerminal (job_items job)"
    by (auto simp add: list_all_iff isTerminal_def)
  then show ?thesis
    by (simp add: jobInv_def st pg c f) (simp add: items)
qed

text \<open>
  C2, as the code has it. Take a job created with at least one item and any sequence of
  \<open>startJobItem\<close>, \<open>completeJobItem\<close> and \<open>failJobItem\<close> calls on it in which no
  \<open>startJobItem\<close> is made on an item that is already completed or failed. In the state
  the calls leave, \<open>completed + failed \<le> total\<close>, \<open>completed + failed + pending = total\<close>
  with \<open>pending \<ge> 0\<close>, the job is \<open>completed\<close> exactly when every item is terminal and
  none failed, and \<open>failed\<close> exactly when every item is terminal and at least one failed.
\<close>

theorem job_progress_invariant:
  assumes "createJob store0 requests webhookUrl jobId t0 = (job0, store)"
    and "requests \<noteq> []"
    and "noRestart store jobId evs"
  shows "\<exists>job. getJob (runEvents store jobId evs) jobId = Some job
     \<and> pg_completed (job_progress job) + pg_failed (job_progress job) \<le> pg_total (job_progress job)
     \<and> sp_completed (statusProgress job) + sp_failed (statusProgress job) + sp_pending (statusProgress job)
         = sp_total (statusProgress job)
     \<and> 0 \<le> sp_pending (statusProgress job)
     \<and> (job_status job = Completed \<longleftrightarrow>
          (\<forall>item \<in> set (job_items job). isTerminal item) \<and> pg_failed (job_progress job) = 0)
     \<and> (job_status job = Failed \<longleftrightarrow>
          (\<forall>item \<in> set (job_items job). isTerminal item) \<and> pg_failed (job_progress job) > 0)"
proof -
  from runEvents_inv[OF createJob_getJob[OF assms(1)] createJob_inv[OF assms(1) assms(2)] assms(3)]
  obtain job where get: "getJob (runEvents store jobId evs) jobId = Some job" and inv: "jobInv job"
    by blast
  from inv count_terminal[of "job_items job"] length_filter_le[of isTerminal "job_items job"]
  have le: "pg_completed (job_progress job) + pg_failed (job_progress job) \<le> pg_total (job_progress job)"
    by (simp add: jobInv_def)
  have "job_status job = Completed \<longleftrightarrow>
          (\<forall>item \<in> set (job_items job). isTerminal item) \<and> pg_failed (job_progress job) = 0"
    using inv by (auto simp add: jobInv_def list_all_iff split: if_splits)
  moreover have "job_status job = Failed \<longleftrightarrow>
          (\<forall>item \<in> set (job_items job). isTerminal item) \<and> pg_failed (job_progress job) > 0"
    using inv by (auto simp add: jobInv_def list_all_iff split: if_splits)
  ultimately show ?thesis
    using get le by (simp add: statusProgress_def)
qed

theorem job_progress_invariant_witness:
  "[exampleRequest ''a'', exampleRequest ''b'', exampleRequest ''c''] \<noteq> []
   \<and> noRestart threeItemStore ''J'' secondItemFails
   \<and> (\<exists>job. getJob (runEvents threeItemStore ''J'' secondItemFails) ''J'' = Some job
        \<and> pg_completed (job_progress job) + pg_failed (job_progress job) \<le> pg_total (job_progress job)
        \<and> sp_completed (statusProgress job) + sp_failed (statusProgress job)
            + sp_pending (statusProgress job) = sp_total (statusProgress job)
        \<and> job_status job = Failed)"
proof -
  have c: "createJob emptyStore [exampleRequest ''a'', exampleRequest ''b'', exampleRequest ''c'']
             None ''J'' 0
           = (fst (createJob emptyStore [exampleRequest ''a'', exampleRequest ''b'', exampleRequest ''c'']
                     None ''J'' 0), threeItemStore)"
    by (simp add: threeItemStore_def)
  have n: "noRestart threeItemStore ''J'' secondItemFails"
    by (simp add: threeItemStore_def secondItemFails_def jobStore_defs emptyStore_def
        exampleRequest_def exampleResponse_def)
  have f: "\<exists>job. getJob (runEvents threeItemStore ''J'' secondItemFails) ''J'' = Some job
        \<and> pg_failed (job_progress job) = 1 \<and> list_all isTerminal (job_items job)"
    by (simp add: threeItemStore_def secondItemFails_def jobStore_defs emptyStore_def
        exampleRequest_def exampleResponse_def)
  from job_progress_invariant[OF c _ n] f n show ?thesis
    by (auto simp add: list_all_iff)
qed

text \<open>
  C2 as stated fails, because the store does not guard its transitions: completing the
  only item of a job and then starting it again leaves the job \<open>completed\<close> while its
  item is \<open>processing\<close>.
\<close>

theorem job_completed_with_item_processing:
  "(case getJob (runEvents oneItemStore ''J'' completedThenRestarted) ''J'' of
      None \<Rightarrow> False
    | Some job \<Rightarrow> job_status job = Completed
        \<and> map item_status (job_items job) = [Processing]
        \<and> \<not> list_all isTerminal (job_items job))"
  by (simp add: oneItemStore_def completedThenRestarted_def jobStore_defs emptyStore_def
        exampleRequest_def exampleResponse_def)

section \<open>Where a degenerate region is rejected\<close>

text \<open>
  C7, as the code has it. \<open>processCoordinates\<close> has no failure for a degenerate region:
  for every pixel and every unit-interval input it returns the clamped rectangle, whose
  width and height are floored at 1. The \<open>INVALID_REGION\<close> failure belongs to the base64
  endpoint's pre-clamp: \<open>clampRegion\<close> fails exactly when the region is taken as
  unit-interval and, clamped into the unit square, has width or height \<open>\<le> 0\<close>; for a
  region of positive width and height that is exactly when \<open>x = 1\<close> or \<open>y = 1\<close>.
\<close>

theorem degenerate_region_rejected_by_clampRegion_only:
  "processCoordinates (Pixel p) d = Inr (clampToImageBounds p d)
   \<and> processCoordinates (Normalized n) d = Inr (clampToImageBounds (normalizedToPixel n d) d)
   \<and> 1 \<le> pc_width (clampToImageBounds q d) \<and> 1 \<le> pc_height (clampToImageBounds q d)
   \<and> (isl (clampRegion i c imgWidth imgHeight) \<longleftrightarrow>
        isNormalized c
        \<and> (max 0 (min (1 - max 0 (min 1 (sc_x c))) (sc_width c)) \<le> 0
           \<or> max 0 (min (1 - max 0 (min 1 (sc_y c))) (sc_height c)) \<le> 0))
   \<and> (isl (clampRegion i c imgWidth imgHeight) \<longrightarrow>
        er_status (projl (clampRegion i c imgWidth imgHeight)) = 400
        \<and> er_code (projl (clampRegion i c imgWidth imgHeight)) = ''INVALID_REGION'')
   \<and> (0 < sc_width c \<and> 0 < sc_height c \<longrightarrow>
        (isl (clampRegion i c imgWidth imgHeight) \<longleftrightarrow>
           isNormalized c \<and> (sc_x c = 1 \<or> sc_y c = 1)))"
proof -
  have a: "isl (clampRegion i c imgWidth imgHeight) \<longleftrightarrow>
        isNormalized c
        \<and> (max 0 (min (1 - max 0 (min 1 (sc_x c))) (sc_width c)) \<le> 0
           \<or> max 0 (min (1 - max 0 (min 1 (sc_y c))) (sc_height c)) \<le> 0)"
    by (simp add: clampRegion_def Let_def)
  have b: "isl (clampRegion i c imgWidth imgHeight) \<longrightarrow>
        er_status (projl (clampRegion i c imgWidth imgHeight)) = 400
        \<and> er_code (projl (clampRegion i c imgWidth imgHeight)) = ''INVALID_REGION''"
    by (simp add: clampRegion_def Let_def)
  have c: "0 < sc_width c \<and> 0 < sc_height c \<longrightarrow>
        (isl (clampRegion i c imgWidth imgHeight) \<longleftrightarrow>
           isNormalized c \<and> (sc_x c = 1 \<or> sc_y c = 1))"
    unfolding a by (auto simp add: isNormalized_def)
  have d: "1 \<le> pc_width (clampToImageBounds q d) \<and> 1 \<le> pc_height (clampToImageBounds q d)"
    by (simp add: clampToImageBounds_def Let_def)
  show ?thesis
    using a b c d by (simp add: processCoordinates_def)
qed

theorem degenerate_region_rejected_by_clampRegion_only_witness:
  "(0::real) < 1 / 2
   \<and> isl (clampRegion 0 \<lparr> sc_x = 1, sc_y = 0, sc_width = 1 / 2, sc_height = 1 / 2 \<rparr> 400 300)
   \<and> er_code (projl (clampRegion 0 \<lparr> sc_x = 1, sc_y = 0, sc_width = 1 / 2, sc_height = 1 / 2 \<rparr> 400 300))
       = ''INVALID_REGION''
   \<and> processCoordinates
        (Normalized \<lparr> x_norm = 1, y_norm = 0, w_norm = 1 / 2, h_norm = 1 / 2 \<rparr>)
        \<lparr> dim_width = 400, dim_height = 300 \<rparr>
      = Inr (clampToImageBounds
               (normalizedToPixel \<lparr> x_norm = 1, y_norm = 0, w_norm = 1 / 2, h_norm = 1 / 2 \<rparr>
                  \<lparr> dim_width = 400, dim_height = 300 \<rparr>)
               \<lparr> dim_width = 400, dim_height = 300 \<rparr>)"
  using degenerate_region_rejected_by_clampRegion_only
    [of "\<lparr> pc_x = 0, pc_y = 0, pc_width = 1, pc_height = 1 \<rparr>"
        "\<lparr> dim_width = 400, dim_height = 300 \<rparr>"
        "\<lparr> x_norm = 1, y_norm = 0, w_norm = 1 / 2, h_norm = 1 / 2 \<rparr>"
        "\<lparr> pc_x = 0, pc_y = 0, pc_width = 1, pc_height = 1 \<rparr>"
        0
        "\<lparr> sc_x = 1, sc_y = 0, sc_width = 1 / 2, sc_height = 1 / 2 \<rparr>"
        400 300]
  by (simp add: isNormalized_def)

text \<open>
  C7 as stated fails on \<open>processCoordinates\<close>: the unit-interval region with \<open>x = 1\<close> on
  a 400 by 300 image has no width left after clamping (\<open>min 200 (400 - 400) \<le> 0\<close>), and
  the resolver returns the rectangle \<open>x = 400\<close>, \<open>width = 1\<close> instead of failing.
\<close>

theorem processCoordinates_unit_x_one_returns:
  "min (pc_width (normalizedToPixel \<lparr> x_norm = 1, y_norm = 0, w_norm = 1 / 2, h_norm = 1 / 2 \<rparr>
                    \<lparr> dim_width = 400, dim_height = 300 \<rparr>))
       (400 - 400) \<le> 0
   \<and> processCoordinates
        (Normalized \<lparr> x_norm = 1, y_norm = 0, w_norm = 1 / 2, h_norm = 1 / 2 \<rparr>)
        \<lparr> dim_width = 400, dim_height = 300 \<rparr>
      = Inr \<lparr> pc_x = 400, pc_y = 0, pc_width = 1, pc_height = 150 \<rparr>"
  by (simp add: processCoordinates_def clampToImageBounds_def normalizedToPixel_def
      Math_round_def Let_def)

section \<open>Eviction\<close>

lemma length_Map_set:
  "length (Map_set k v m) = (if k \<in> fst ` set m then length m else Suc (length m))"
  by (induction m) auto

lemma cleanupOldJobs_nothing_to_do:
  assumes "\<forall>p \<in> set (jobs store). now - job_createdAt (snd p) \<le> JOB_TTL_MS"
    and "int (length (jobs store)) \<le> MAX_JOBS"
  shows "cleanupOldJobs store now = store"
proof -
  have "filter (\<lambda>(jobId, job). now - job_createdAt job > JOB_TTL_MS) (jobs store) = []"
    using assms(1) by (auto simp add: filter_empty_conv)
  then show ?thesis
    using assms(2) by (simp add: cleanupOldJobs_def)
qed

text \<open>
  C6, evaluated where it fails. The store holds 1000 jobs, none older than 24 hours. The
  clean-up that \<open>createJob\<close> runs before it inserts the new job finds nothing to remove
  (1000 is not more than \<open>MAX_JOBS\<close>), so after \<open>createJob\<close> the store holds 1001 jobs.
\<close>

theorem createJob_at_capacity_holds_1001:
  "getJobCount fullStore = 1000
   \<and> getJobCount (snd (createJob fullStore [exampleRequest ''a''] None ''new'' 1000)) = 1001"
proof -
  have len: "length (jobs fullStore) = 1000"
    by (simp add: fullStore_def)
  have fresh: "\<forall>p \<in> set (jobs fullStore). 1000 - job_createdAt (snd p) \<le> JOB_TTL_MS"
    by (auto simp add: fullStore_def freshJob_def JOB_TTL_MS_def)
  have "cleanupOldJobs fullStore 1000 = fullStore"
    using fresh len by (intro cleanupOldJobs_nothing_to_do) (simp_all add: MAX_JOBS_def)
  moreover have "''new'' \<notin> fst ` set (jobs fullStore)"
    by (auto simp add: fullStore_def freshJob_def)
  ultimately show ?thesis
    using len by (simp add: getJobCount_def createJob_def Let_def length_Map_set)
qed

section \<open>Properties of webhook delivery\<close>

text \<open>\<open>sendWebhook\<close> unfolded at each of its three attempts.\<close>

lemma sendWebhook_last:
  "sendWebhook env jobId webhookUrl 2 =
     (case getJob (wh_store env 2) jobId of
        None \<Rightarrow> Inr []
      | Some job \<Rightarrow> Inr [Post webhookUrl (webhookPayload job webhookUrl 2)])"
  by (subst sendWebhook.simps) (simp add: maxAttempts_def split: option.splits sum.splits)

lemma sendWebhook_second:
  "sendWebhook env jobId webhookUrl (Suc 0) =
     (case getJob (wh_store env (Suc 0)) jobId of
        None \<Rightarrow> Inr []
      | Some job \<Rightarrow>
          (case deliver env job webhookUrl (Suc 0) of
             Inr u \<Rightarrow> Inr [Post webhookUrl (webhookPayload job webhookUrl (Suc 0))]
           | Inl error \<Rightarrow>
               (case sendWebhook env jobId webhookUrl 2 of
                  Inl e \<Rightarrow> Inl e
                | Inr effects \<Rightarrow>
                    Inr (Post webhookUrl (webhookPayload job webhookUrl (Suc 0))
                         # Sleep 5000 # effects))))"
  by (subst sendWebhook.simps)
     (simp add: maxAttempts_def retryDelays_def numeral_2_eq_2 split: option.splits sum.splits)

lemma sendWebhook_first:
  "sendWebhook env jobId webhookUrl 0 =
     (case getJob (wh_store env 0) jobId of
        None \<Rightarrow> Inr []
      | Some job \<Rightarrow>
          (case deliver env job webhookUrl 0 of
             Inr u \<Rightarrow> Inr [Post webhookUrl (webhookPayload job webhookUrl 0)]
           | Inl error \<Rightarrow>
               (case sendWebhook env jobId webhookUrl (Suc 0) of
                  Inl e \<Rightarrow> Inl e
                | Inr effects \<Rightarrow>
                    Inr (Post webhookUrl (webhookPayload job webhookUrl 0)
                         # Sleep 1000 # effects))))"
  by (subst sendWebhook.simps)
     (simp add: maxAttempts_def retryDelays_def split: option.splits sum.splits)

lemma threeItemStore_job_present:
  "getJob (runEvents threeItemStore ''J'' secondItemFails) ''J'' \<noteq> None"
  by (simp add: threeItemStore_def secondItemFails_def jobStore_defs emptyStore_def
        exampleRequest_def exampleResponse_def)

text \<open>
  C3, as the code has it. A call \<open>sendWebhook(jobId, webhookUrl)\<close> always returns (no
  failure of a delivery reaches the caller); it makes at most 3 posts; its time line is
  an initial part of post, wait 1000 ms, post, wait 5000 ms, post; it never waits
  10000 ms. When the first two attempts fail and the third finds the job, the time line
  is exactly that: 3 posts, spaced by 1000 ms and then 5000 ms, whether the third
  succeeds or fails.
\<close>

theorem sendWebhook_bounded_retry:
  "\<exists>effects. sendWebhook env jobId webhookUrl 0 = Inr effects
     \<and> posts effects \<le> 3
     \<and> prefix (timeline effects) [None, Some 1000, None, Some 5000, None]
     \<and> Sleep 10000 \<notin> set effects
     \<and> (attemptFails env jobId webhookUrl 0 \<and> attemptFails env jobId webhookUrl 1
          \<and> getJob (wh_store env 2) jobId \<noteq> None
        \<longrightarrow> posts effects = 3 \<and> timeline effects = [None, Some 1000, None, Some 5000, None])"
  by (auto simp add: sendWebhook_first sendWebhook_second sendWebhook_last attemptFails_def
      split: option.splits sum.splits)

theorem sendWebhook_bounded_retry_witness:
  "attemptFails failsTwice ''J'' ''http://hook'' 0
   \<and> attemptFails failsTwice ''J'' ''http://hook'' 1
   \<and> getJob (wh_store failsTwice 2) ''J'' \<noteq> None
   \<and> (\<exists>effects. sendWebhook failsTwice ''J'' ''http://hook'' 0 = Inr effects
        \<and> posts effects = 3
        \<and> timeline effects = [None, Some 1000, None, Some 5000, None])"
proof -
  from threeItemStore_job_present obtain job where
    job: "getJob (runEvents threeItemStore ''J'' secondItemFails) ''J'' = Some job"
    by blast
  have f0: "attemptFails failsTwice ''J'' ''http://hook'' 0"
    and f1: "attemptFails failsTwice ''J'' ''http://hook'' 1"
    and p2: "getJob (wh_store failsTwice 2) ''J'' \<noteq> None"
    by (simp_all add: attemptFails_def failsTwice_def deliver_def response_ok_def job)
  with sendWebhook_bounded_retry[of failsTwice "''J''" "''http://hook''"] show ?thesis
    by auto
qed

text \<open>
  C3 as stated names a delay of 10 s between attempts. No run has one: against an
  endpoint that always answers HTTP 500, all 3 attempts are made, 1000 ms and then
  5000 ms apart, and the call returns; the third entry of \<open>retryDelays\<close> is never read.
\<close>

theorem sendWebhook_exhausted_without_10s_delay:
  "\<not> isl (sendWebhook failsAlways ''J'' ''http://hook'' 0)
   \<and> posts (projr (sendWebhook failsAlways ''J'' ''http://hook'' 0)) = 3
   \<and> timeline (projr (sendWebhook failsAlways ''J'' ''http://hook'' 0))
       = [None, Some 1000, None, Some 5000, None]
   \<and> Some 10000 \<notin> set (timeline (projr (sendWebhook failsAlways ''J'' ''http://hook'' 0)))"
proof -
  from threeItemStore_job_present obtain job where
    job: "getJob (runEvents threeItemStore ''J'' secondItemFails) ''J'' = Some job"
    by blast
  then show ?thesis
    by (simp add: sendWebhook_first sendWebhook_second sendWebhook_last failsAlways_def
        deliver_def response_ok_def)
qed

section \<open>Properties of batch processing\<close>

















lemma count_by_index:
  assumes "\<forall>k < length xs. P (xs ! k) \<longleftrightarrow> Q k"
  shows "length (filter P xs) = length (filter Q [0..<length xs])"
proof -
  have "length (filter P xs) = length (filter P (map ((!) xs) [0..<length xs]))"
    by (simp add: map_nth)
  also have "\<dots> = length (filter (P \<circ> (!) xs) [0..<length xs])"
    by (simp add: filter_map)
  also have "filter (P \<circ> (!) xs) [0..<length xs] = filter Q [0..<length xs]"
    using assms by (intro filter_cong) auto
  finally show ?thesis .
qed



















section \<open>Properties of the S3 endpoint\<close>

lemma parse_example:
  "s3RedactionRequestSchema (exampleRawRequest key) = Some ((exampleRequest ''a'')\<lparr> rq_idempotency_key := key \<rparr>)"
  by (simp add: s3RedactionRequestSchema_def exampleRawRequest_def exampleRequest_def s3ObjectSchema_def
      outputSchema_def formatSchema_def qualitySchema_def regionSchema_def coordinatesSchema_def
      pixelCoordinatesSchema_def operationSchema_def colorSchema_def isInteger_def)

lemma sorted_keys: "sort [''input'', ''output'', ''regions''] = [''input'', ''output'', ''regions'']"
  by code_simp

text \<open>
  C5, as the code has it. For a request that passes validation, the skip-if-exists
  branch is taken exactly when the request carries a non-empty \<open>idempotency_key\<close> and the
  existence check finds the destination object; the reply is then success with
  \<open>processing_time_ms = 0\<close> and nothing is written to storage. Without a key, or with
  the empty string as key, the branch is never taken, and the key used is the derived
  one: the hash of the serialised \<open>input\<close>, \<open>output\<close> and \<open>regions\<close> fields in that
  (sorted) order.
\<close>

theorem skip_iff_nonempty_key_and_exists:
  assumes "s3RedactionRequestSchema body = Some requestData"
  shows "(skipped requestData (postRedactS3 env body) \<longleftrightarrow>
            truthy (rq_idempotency_key requestData)
            \<and> objectExists (se_existsReply env (out_bucket (rq_output requestData))
                               (out_key (rq_output requestData))) = Inr True)
     \<and> (skipped requestData (postRedactS3 env body) \<longrightarrow>
            \<not> list_ex isPutCall (snd (postRedactS3 env body)))
     \<and> (\<not> truthy (rq_idempotency_key requestData) \<longrightarrow>
            \<not> skipped requestData (postRedactS3 env body)
            \<and> idempotencyKeyOf env requestData
                = se_sha256 env (se_stringify env
                    [(''input'', InputField (rq_input requestData)),
                     (''output'', OutputField (rq_output requestData)),
                     (''regions'', RegionsField (rq_regions requestData))]))"
proof -
  have a: "skipped requestData (postRedactS3 env body) \<longleftrightarrow>
            truthy (rq_idempotency_key requestData)
            \<and> objectExists (se_existsReply env (out_bucket (rq_output requestData))
                               (out_key (rq_output requestData))) = Inr True"
    using assms
    by (auto simp add: skipped_def postRedactS3_def Let_def errorReply_def split: sum.splits)
  have b: "skipped requestData (postRedactS3 env body) \<longrightarrow>
            \<not> list_ex isPutCall (snd (postRedactS3 env body))"
    by (auto simp add: skipped_def)
  have c: "idempotencyKeyOf env requestData
                = se_sha256 env (se_stringify env
                    [(''input'', InputField (rq_input requestData)),
                     (''output'', OutputField (rq_output requestData)),
                     (''regions'', RegionsField (rq_regions requestData))])"
    if "\<not> truthy (rq_idempotency_key requestData)"
    using that by (simp add: idempotencyKeyOf_def generateRequestHash_def sorted_keys)
  from a b c show ?thesis by blast
qed

theorem skip_iff_nonempty_key_and_exists_witness:
  "s3RedactionRequestSchema (exampleRawRequest (Some ''k1''))
     = Some ((exampleRequest ''a'')\<lparr> rq_idempotency_key := Some ''k1'' \<rparr>)
   \<and> truthy (Some ''k1'')
   \<and> objectExists (se_existsReply outputPresent ''out'' ''a'') = Inr True
   \<and> skipped ((exampleRequest ''a'')\<lparr> rq_idempotency_key := Some ''k1'' \<rparr>)
         (postRedactS3 outputPresent (exampleRawRequest (Some ''k1'')))
   \<and> \<not> list_ex isPutCall (snd (postRedactS3 outputPresent (exampleRawRequest (Some ''k1''))))"
proof -
  have e: "objectExists (se_existsReply outputPresent ''out'' ''a'') = Inr True"
    by (simp add: objectExists_def outputPresent_def)
  with skip_iff_nonempty_key_and_exists[OF parse_example, of "Some ''k1''" outputPresent]
  show ?thesis
    by (simp add: parse_example exampleRequest_def)
qed

text \<open>
  C5 as stated fails for an explicit key that is the empty string, which the schema
  accepts: the key is supplied and the destination exists, yet the request is processed
  and the result written.
\<close>

theorem empty_idempotency_key_not_skipped:
  "rq_idempotency_key (the (s3RedactionRequestSchema (exampleRawRequest (Some [])))) = Some []
   \<and> objectExists (se_existsReply outputPresent ''out'' ''a'') = Inr True
   \<and> \<not> skipped (the (s3RedactionRequestSchema (exampleRawRequest (Some []))))
           (postRedactS3 outputPresent (exampleRawRequest (Some [])))
   \<and> list_ex isPutCall (snd (postRedactS3 outputPresent (exampleRawRequest (Some []))))"
  by (simp add: parse_example postRedactS3_def skipped_def objectExists_def getObject_def
      putObject_def outputPresent_def exampleRequest_def Let_def)

section \<open>Properties of the pixelate operation\<close>

text \<open>
  What \<open>applyPixelate\<close> asks of the library, for a resolved rectangle (width and height
  at least 1) and a pixelate size, with block size \<open>b\<close> = 6, 12 or 24 for S, M, L: one
  pipeline on the current image, on which it chains the extraction of the rectangle, a
  \<open>resize\<close> to \<open>max 1 (width div b)\<close> by \<open>max 1 (height div b)\<close> and a \<open>resize\<close> to
  \<open>width\<close> by \<open>height\<close>, both with the nearest-neighbour kernel; the buffer this one
  pipeline gives is composited onto the current image at the rectangle's own offset.
  Both \<open>resize\<close> calls are made on the same pipeline, which is run once.
\<close>

lemma applyPixelate_one_pipeline:
  assumes "1 \<le> pc_width coords" and "1 \<le> pc_height coords"
    and "toBuffer img = Inr currentBuffer"
  shows "PIXELATE_SIZE_MAP S = 6 \<and> PIXELATE_SIZE_MAP M = 12 \<and> PIXELATE_SIZE_MAP L = 24
    \<and> applyOperation toBuffer img coords (Pixelate sz) =
        (case toBuffer
                \<lparr> sh_input = FromBuffer currentBuffer,
                  sh_ops = [ExtractOp (pc_x coords) (pc_y coords) (pc_width coords) (pc_height coords),
                            ResizeOp (max 1 (pc_width coords div PIXELATE_SIZE_MAP sz))
                                     (max 1 (pc_height coords div PIXELATE_SIZE_MAP sz)) Nearest,
                            ResizeOp (pc_width coords) (pc_height coords) Nearest] \<rparr> of
           Inl e \<Rightarrow> Inl e
         | Inr region \<Rightarrow>
             Inr \<lparr> sh_input = FromBuffer currentBuffer,
                   sh_ops = [CompositeOp region (pc_x coords) (pc_y coords) None] \<rparr>)
    \<and> 1 \<le> max 1 (pc_width coords div PIXELATE_SIZE_MAP sz)
    \<and> max 1 (pc_width coords div PIXELATE_SIZE_MAP sz) \<le> pc_width coords
    \<and> 1 \<le> max 1 (pc_height coords div PIXELATE_SIZE_MAP sz)
    \<and> max 1 (pc_height coords div PIXELATE_SIZE_MAP sz) \<le> pc_height coords"
proof -
  have pos: "0 < PIXELATE_SIZE_MAP sz"
    by (cases sz) (simp_all add: PIXELATE_SIZE_MAP_def)
  have "pc_width coords div PIXELATE_SIZE_MAP sz \<le> pc_width coords div 1"
    using assms(1) pos by (intro zdiv_mono2) simp_all
  moreover have "pc_height coords div PIXELATE_SIZE_MAP sz \<le> pc_height coords div 1"
    using assms(2) pos by (intro zdiv_mono2) simp_all
  ultimately show ?thesis
    using assms
    by (simp add: applyOperation_def applyPixelate_def floor_divide_of_int_eq Let_def
        PIXELATE_SIZE_MAP_def)
qed

text \<open>
  C9. The rectangle is not scaled down. For the rectangle of 50 by 20 pixels at
  (350, 250) and the size M (block size 12) the reduced size would be 4 by 1. Run on a
  library that keeps the last \<open>resize\<close> of a pipeline, as sharp does, the one pipeline
  of \<open>applyPixelate\<close> extracts the rectangle (code 1) and resizes it to 50 by 20, its
  own size (code 3); no resize to 4 by 1 is made, and what is composited back at
  (350, 250) is the rectangle as it was extracted.
\<close>

theorem applyPixelate_never_scales_down:
  "applyOperation lastResizeToBuffer \<lparr> sh_input = FromBuffer [7], sh_ops = [] \<rparr>
       \<lparr> pc_x = 350, pc_y = 250, pc_width = 50, pc_height = 20 \<rparr> (Pixelate M)
     = Inr \<lparr> sh_input = FromBuffer [7],
             sh_ops = [CompositeOp [7, 1, 350, 250, 50, 20, 3, 50, 20] 350 250 None] \<rparr>
   \<and> max 1 \<lfloor>real_of_int 50 / real_of_int (PIXELATE_SIZE_MAP M)\<rfloor> = 4
   \<and> max 1 \<lfloor>real_of_int 20 / real_of_int (PIXELATE_SIZE_MAP M)\<rfloor> = 1"
  by (simp add: applyOperation_def applyPixelate_def lastResizeToBuffer_def traceToBuffer_def
      PIXELATE_SIZE_MAP_def Let_def)

section \<open>Properties of batch submission\<close>

lemma those_length: "those xs = Some ys \<Longrightarrow> length ys = length xs"
  by (induction xs arbitrary: ys) (auto split: option.splits)

text \<open>
  C10. A batch submission is accepted, and a job created and scheduled, only when it
  holds between 1 and 10 items; a submission with no item or with more than 10 is
  answered with HTTP 400 \<open>VALIDATION_ERROR\<close>, and the job store is left as it was and
  nothing is scheduled.
\<close>

theorem batch_accepted_only_with_1_to_10_items:
  "(postRedactBatch isUrl zodMessage store body jobId now = (Accepted response, store', scheduled)
      \<longrightarrow> 1 \<le> length (rbr_items body) \<and> length (rbr_items body) \<le> 10
          \<and> bresp_items_count response = length (rbr_items body)
          \<and> getJob store' jobId \<noteq> None \<and> scheduled = Some jobId)
   \<and> (length (rbr_items body) = 0 \<or> 10 < length (rbr_items body)
      \<longrightarrow> postRedactBatch isUrl zodMessage store body jobId now
          = (Refused \<lparr> er_status = 400, er_code = ''VALIDATION_ERROR'', er_message = zodMessage \<rparr>,
             store, None))"
proof -
  have rej: "length (rbr_items body) = 0 \<or> 10 < length (rbr_items body)
      \<longrightarrow> postRedactBatch isUrl zodMessage store body jobId now
          = (Refused \<lparr> er_status = 400, er_code = ''VALIDATION_ERROR'', er_message = zodMessage \<rparr>,
             store, None)"
    by (auto simp add: postRedactBatch_def batchRequestSchema_def)
  have acc: "1 \<le> length (rbr_items body) \<and> length (rbr_items body) \<le> 10
          \<and> bresp_items_count response = length (rbr_items body)
          \<and> getJob store' jobId \<noteq> None \<and> scheduled = Some jobId"
    if a: "postRedactBatch isUrl zodMessage store body jobId now = (Accepted response, store', scheduled)"
  proof -
    from a obtain requestData where p: "batchRequestSchema isUrl body = Some requestData"
      by (cases "batchRequestSchema isUrl body") (auto simp add: postRedactBatch_def)
    then have len: "1 \<le> length (rbr_items body) \<and> length (rbr_items body) \<le> 10"
      and items: "length (br_items requestData) = length (rbr_items body)"
      by (auto simp add: batchRequestSchema_def dest: those_length split: if_splits option.splits)
    obtain job st where c: "createJob store (br_items requestData) (br_webhook_url requestData) jobId now = (job, st)"
      by (cases "createJob store (br_items requestData) (br_webhook_url requestData) jobId now")
    from createJob_getJob[OF c] have g: "getJob st jobId = Some job" .
    from c have "job_id job = jobId" by (auto simp add: createJob_def Let_def)
    with a p c g len items show ?thesis
      by (auto simp add: postRedactBatch_def)
  qed
  from rej acc show ?thesis by blast
qed

theorem batch_accepted_only_with_1_to_10_items_witness:
  "postRedactBatch anyUrl ''invalid'' emptyStore \<lparr> rbr_items = [], rbr_webhook_url = None \<rparr> ''J'' 0
     = (Refused \<lparr> er_status = 400, er_code = ''VALIDATION_ERROR'', er_message = ''invalid'' \<rparr>,
        emptyStore, None)
   \<and> postRedactBatch anyUrl ''invalid'' emptyStore
         \<lparr> rbr_items = replicate 11 (exampleRawRequest None), rbr_webhook_url = None \<rparr> ''J'' 0
     = (Refused \<lparr> er_status = 400, er_code = ''VALIDATION_ERROR'', er_message = ''invalid'' \<rparr>,
        emptyStore, None)
   \<and> fst (postRedactBatch anyUrl ''invalid'' emptyStore
            \<lparr> rbr_items = [exampleRawRequest None], rbr_webhook_url = None \<rparr> ''J'' 0)
     = Accepted \<lparr> bresp_job_id = ''J'', bresp_items_count = 1,
                    bresp_estimated_completion_ms = 500 \<rparr>
   \<and> getJob (fst (snd (postRedactBatch anyUrl ''invalid'' emptyStore
            \<lparr> rbr_items = [exampleRawRequest None], rbr_webhook_url = None \<rparr> ''J'' 0))) ''J''
       \<noteq> None"
proof -
  let ?one = "\<lparr> rbr_items = [exampleRawRequest None], rbr_webhook_url = None \<rparr>"
  let ?result = "postRedactBatch anyUrl ''invalid'' emptyStore ?one ''J'' 0"
  have f: "fst ?result
     = Accepted \<lparr> bresp_job_id = ''J'', bresp_items_count = 1,
                    bresp_estimated_completion_ms = 500 \<rparr>"
    by (simp add: postRedactBatch_def batchRequestSchema_def batchItemSchema_def parse_example
        createJob_def Let_def)
  then have acc: "?result
     = (Accepted \<lparr> bresp_job_id = ''J'', bresp_items_count = 1,
                    bresp_estimated_completion_ms = 500 \<rparr>,
        fst (snd ?result), snd (snd ?result))"
    by (metis prod.collapse)
  from batch_accepted_only_with_1_to_10_items
         [of anyUrl "''invalid''" emptyStore ?one "''J''" 0
             "\<lparr> bresp_job_id = ''J'', bresp_items_count = 1, bresp_estimated_completion_ms = 500 \<rparr>"
             "fst (snd ?result)" "snd (snd ?result)"]
       acc
  have g: "getJob (fst (snd ?result)) ''J'' \<noteq> None"
    by blast
  from batch_accepted_only_with_1_to_10_items
         [of anyUrl "''invalid''" emptyStore "\<lparr> rbr_items = [], rbr_webhook_url = None \<rparr>" "''J''" 0]
  have r1: "postRedactBatch anyUrl ''invalid'' emptyStore \<lparr> rbr_items = [], rbr_webhook_url = None \<rparr> ''J'' 0
     = (Refused \<lparr> er_status = 400, er_code = ''VALIDATION_ERROR'', er_message = ''invalid'' \<rparr>,
        emptyStore, None)"
    by simp
  from batch_accepted_only_with_1_to_10_items
         [of anyUrl "''invalid''" emptyStore
             "\<lparr> rbr_items = replicate 11 (exampleRawRequest None), rbr_webhook_url = None \<rparr>" "''J''" 0]
  have r2: "postRedactBatch anyUrl ''invalid'' emptyStore
         \<lparr> rbr_items = replicate 11 (exampleRawRequest None), rbr_webhook_url = None \<rparr> ''J'' 0
     = (Refused \<lparr> er_status = 400, er_code = ''VALIDATION_ERROR'', er_message = ''invalid'' \<rparr>,
        emptyStore, None)"
    by simp
  from r1 r2 f g show ?thesis
    by (intro conjI)
qed

section \<open>What eviction does guarantee\<close>

lemma fold_Map_delete: "fold Map_delete ds m = filter (\<lambda>p. fst p \<notin> set ds) m"
proof (induction ds arbitrary: m)
  case Nil
  then show ?case by simp
next
  case (Cons d ds)
  then show ?case by (simp add: Map_delete_def conj_commute)
qed

lemma set_Map_set: "set (Map_set k v m) \<subseteq> insert (k, v) (set m)"
  by (induction m) auto

lemma cleanupOldJobs_subset:
  "set (jobs (cleanupOldJobs store now)) \<subseteq> {p \<in> set (jobs store). \<not> expiredAt now p}"
proof -
  have e: "filter (\<lambda>(jobId, job). now - job_createdAt job > JOB_TTL_MS) (jobs store)
           = filter (expiredAt now) (jobs store)"
    by (rule filter_cong) (auto simp add: expiredAt_def)
  show ?thesis
    unfolding cleanupOldJobs_def Let_def e fold_Map_delete
    by (auto split: if_splits)
qed

text \<open>
  After \<open>createJob\<close>, no job in the store but the new one is older than the TTL.
\<close>

lemma createJob_leaves_no_expired_job:
  assumes "createJob store requests webhookUrl jobId now = (job, store')"
    and "p \<in> set (jobs store')"
  shows "p = (jobId, job) \<or> now - job_createdAt (snd p) \<le> JOB_TTL_MS"
proof -
  from assms(1) have s': "jobs store' = Map_set jobId job (jobs (cleanupOldJobs store now))"
    by (auto simp add: createJob_def Let_def)
  from assms(2) s' set_Map_set[of jobId job "jobs (cleanupOldJobs store now)"]
  have "p = (jobId, job) \<or> p \<in> set (jobs (cleanupOldJobs store now))" by auto
  then show ?thesis
  proof
    assume "p = (jobId, job)" then show ?thesis ..
  next
    assume "p \<in> set (jobs (cleanupOldJobs store now))"
    with cleanupOldJobs_subset have "\<not> expiredAt now p" by blast
    then show ?thesis by (simp add: expiredAt_def)
  qed
qed


lemma length_filter_mono:
  "(\<And>x. x \<in> set xs \<Longrightarrow> P x \<Longrightarrow> Q x) \<Longrightarrow> length (filter P xs) \<le> length (filter Q xs)"
  by (induction xs) auto

lemma length_Map_set_le: "length (Map_set k v m) \<le> Suc (length m)"
  by (induction m) auto

lemma cleanupOldJobs_at_most_MAX_JOBS:
  assumes "getJobCount store \<le> 1001"
  shows "int (getJobCount (cleanupOldJobs store now)) \<le> MAX_JOBS"
proof -
  let ?m = "jobs store"
  let ?E = "filter (expiredAt now) ?m"
  have e: "filter (\<lambda>(jobId, job). now - job_createdAt job > JOB_TTL_MS) ?m = ?E"
    by (rule filter_cong) (auto simp add: expiredAt_def)
  have compl: "length ?E + length (filter (\<lambda>p. \<not> expiredAt now p) ?m) = length ?m"
    by (rule sum_length_filter_compl)
  show ?thesis
  proof (cases "MAX_JOBS < int (length ?m) - int (length (map fst ?E))")
    case False
    then have j: "jobs (cleanupOldJobs store now) = filter (\<lambda>p. fst p \<notin> set (map fst ?E)) ?m"
      by (simp add: cleanupOldJobs_def Let_def e fold_Map_delete)
    have "length (filter (\<lambda>p. fst p \<notin> set (map fst ?E)) ?m)
          \<le> length (filter (\<lambda>p. \<not> expiredAt now p) ?m)"
      by (rule length_filter_mono) force
    with compl False show ?thesis
      by (simp add: getJobCount_def j)
  next
    case True
    then have t: "1000 < int (length ?m) - int (length ?E)"
      by (simp add: MAX_JOBS_def)
    from assms have a: "length ?m \<le> 1001"
      by (simp add: getJobCount_def)
    from t a have "length ?E = 0" and full: "length ?m = 1001"
      by linarith+
    then have none: "?E = []" by simp
    let ?sorted = "sort_key (\<lambda>(jobId, job). job_createdAt job) ?m"
    from full have "?sorted \<noteq> []" by (metis length_sort list.size(3) zero_neq_numeral)
    then obtain p ps where sp: "?sorted = p # ps" by (cases ?sorted) auto
    then have "p \<in> set ?sorted" by simp
    then have pm: "p \<in> set ?m" by simp
    from True none full have j: "jobs (cleanupOldJobs store now) = filter (\<lambda>q. fst q \<noteq> fst p) ?m"
      by (simp add: cleanupOldJobs_def Let_def e fold_Map_delete MAX_JOBS_def sp)
    from pm have "length (filter (\<lambda>q. fst q \<noteq> fst p) ?m) < length ?m"
      by (intro length_filter_less[of p]) simp_all
    with full show ?thesis
      by (simp add: getJobCount_def j MAX_JOBS_def)
  qed
qed

text \<open>
  A store of at most 1001 jobs holds at most 1001 jobs after \<open>createJob\<close>: every store
  built from the empty one by \<open>createJob\<close> stays within 1001, one more than \<open>MAX_JOBS\<close>.
\<close>

lemma createJob_holds_at_most_1001:
  assumes "getJobCount store \<le> 1001"
  shows "getJobCount (snd (createJob store requests webhookUrl jobId now)) \<le> 1001"
proof -
  from cleanupOldJobs_at_most_MAX_JOBS[OF assms, of now]
  have "length (jobs (cleanupOldJobs store now)) \<le> 1000"
    by (simp add: getJobCount_def MAX_JOBS_def)
  moreover have "getJobCount (snd (createJob store requests webhookUrl jobId now))
      \<le> Suc (length (jobs (cleanupOldJobs store now)))"
    by (simp add: createJob_def Let_def getJobCount_def length_Map_set_le)
  ultimately show ?thesis by linarith
qed

end
